theory Spec2Isabelle
  imports Main "HOL-Library.Multiset"
begin

section \<open>JavaScript values\<close>

text \<open>
  Webhook payloads, adapter items, metadata and model responses are JavaScript values
  built from JSON. \<open>Undefined\<close> is the value of an absent property. Numbers are the
  integers (the source only tests them for truth and prints them); an object is the
  list of its own properties in the order JavaScript enumerates them, each key once.
\<close>

datatype jsval =
    Undefined
  | Null
  | Bool bool
  | Num int
  | Str string
  | Arr "jsval list"
  | Obj "(string \<times> jsval) list"

text \<open>
  A thrown exception with its \<open>message\<close>. \<open>Unsupported\<close> is not an exception of
  the program: it marks the two values the integer model of numbers does not hold, a
  string compared with a number and the infinite result of \<open>Math.min\<close> or \<open>Math.max\<close>
  of no numbers (which the source never computes: both are called on a non-empty batch),
  and a call of a member of the runtime that the program never calls.
\<close>

datatype exn =
    Error string
  | TypeError string
  | SyntaxError string
  | Unsupported string

fun message :: "exn \<Rightarrow> string" where
  "message (Error m) = m"
| "message (TypeError m) = m"
| "message (SyntaxError m) = m"
| "message (Unsupported m) = m"

definition andThen :: "exn + 'a \<Rightarrow> ('a \<Rightarrow> exn + 'b) \<Rightarrow> exn + 'b" where
  "andThen m f = (case m of Inl e \<Rightarrow> Inl e | Inr a \<Rightarrow> f a)"

fun mapE :: "('a \<Rightarrow> exn + 'b) \<Rightarrow> 'a list \<Rightarrow> exn + 'b list" where
  "mapE f [] = Inr []"
| "mapE f (x # xs) = andThen (f x) (\<lambda>y. andThen (mapE f xs) (\<lambda>ys. Inr (y # ys)))"

subsection \<open>Truthiness, \<open>||\<close>, property reads\<close>

fun truthy :: "jsval \<Rightarrow> bool" where
  "truthy Undefined = False"
| "truthy Null = False"
| "truthy (Bool b) = b"
| "truthy (Num n) = (n \<noteq> 0)"
| "truthy (Str s) = (s \<noteq> [])"
| "truthy (Arr xs) = True"
| "truthy (Obj kvs) = True"

definition js_or :: "jsval \<Rightarrow> jsval \<Rightarrow> jsval" where
  "js_or a b = (if truthy a then a else b)"

fun nullish :: "jsval \<Rightarrow> bool" where
  "nullish Undefined = True"
| "nullish Null = True"
| "nullish v = False"

fun type_name :: "jsval \<Rightarrow> string" where
  "type_name Undefined = ''undefined''"
| "type_name Null = ''null''"
| "type_name v = ''object''"

text \<open>
  \<open>read v k\<close> is \<open>v.k\<close> for a value already known not to be null or undefined.
  The keys the source reads are fixed identifiers, none of which names an inherited
  member of an object, array, string or number, so only own properties of objects
  answer; \<open>length\<close> is read through \<open>js_length\<close> below.
\<close>

fun read :: "jsval \<Rightarrow> string \<Rightarrow> jsval" where
  "read (Obj kvs) k = (case map_of kvs k of Some v \<Rightarrow> v | None \<Rightarrow> Undefined)"
| "read v k = Undefined"

text \<open>\<open>get_prop v k\<close> is \<open>v.k\<close> in general: reading a property of null or undefined throws.\<close>

definition get_prop :: "jsval \<Rightarrow> string \<Rightarrow> exn + jsval" where
  "get_prop v k =
     (if nullish v
      then Inl (TypeError (''Cannot read properties of '' @ type_name v @ '' (reading '' @ [CHR 0x27] @ k @ [CHR 0x27] @ '')''))
      else Inr (read v k))"

text \<open>\<open>opt v k\<close> is the optional chain \<open>v?.k\<close>.\<close>

definition opt :: "jsval \<Rightarrow> string \<Rightarrow> jsval" where
  "opt v k = (if nullish v then Undefined else read v k)"

subsection \<open>Conversion to string\<close>

definition digit :: "nat \<Rightarrow> char" where
  "digit d = char_of (48 + d)"

fun show_nat :: "nat \<Rightarrow> string" where
  "show_nat n = (if n < 10 then [digit n] else show_nat (n div 10) @ [digit (n mod 10)])"

definition show_int :: "int \<Rightarrow> string" where
  "show_int i = (if i < 0 then ''-'' @ show_nat (nat (- i)) else show_nat (nat i))"

fun join :: "string \<Rightarrow> string list \<Rightarrow> string" where
  "join sep [] = []"
| "join sep [x] = x"
| "join sep (x # y # ys) = x @ sep @ join sep (y # ys)"

text \<open>
  \<open>to_str\<close> is the conversion a template literal and string concatenation apply:
  an array prints its elements joined by commas (null and undefined as nothing), a
  plain object prints as \<open>[object Object]\<close>.
\<close>

fun to_str :: "jsval \<Rightarrow> string" where
  "to_str Undefined = ''undefined''"
| "to_str Null = ''null''"
| "to_str (Bool b) = (if b then ''true'' else ''false'')"
| "to_str (Num n) = show_int n"
| "to_str (Str s) = s"
| "to_str (Arr xs) = join '','' (map (\<lambda>v. if nullish v then [] else to_str v) xs)"
| "to_str (Obj kvs) = ''[object Object]''"

text \<open>\<open>String.prototype.trim\<close> on the ASCII white space characters.\<close>

definition is_space :: "char \<Rightarrow> bool" where
  "is_space c = (c \<in> set [CHR 0x09, CHR 0x0A, CHR 0x0B, CHR 0x0C, CHR 0x0D, CHR 0x20])"

definition trim :: "string \<Rightarrow> string" where
  "trim s = rev (dropWhile is_space (rev (dropWhile is_space s)))"

text \<open>
  \<open>String.prototype.toLowerCase\<close> on the ASCII letters. No adapter name and no
  inherited property name holds a letter that a character outside ASCII lowers to.
\<close>

definition lower_char :: "char \<Rightarrow> char" where
  "lower_char c =
     (let n = (of_char c :: nat) in if 65 \<le> n \<and> n \<le> 90 then char_of (n + 32) else c)"

definition toLowerCase :: "string \<Rightarrow> string" where
  "toLowerCase s = map lower_char s"

subsection \<open>\<open>JSON.stringify\<close>\<close>

definition hex_digit :: "nat \<Rightarrow> char" where
  "hex_digit d = (if d < 10 then char_of (48 + d) else char_of (87 + d))"

definition escape_char :: "char \<Rightarrow> string" where
  "escape_char c =
     (let n = (of_char c :: nat) in
      if c = CHR 0x22 then [CHR 0x5C, CHR 0x22]
      else if c = CHR 0x5C then [CHR 0x5C, CHR 0x5C]
      else if n = 8 then [CHR 0x5C, CHR ''b'']
      else if n = 9 then [CHR 0x5C, CHR ''t'']
      else if n = 10 then [CHR 0x5C, CHR ''n'']
      else if n = 12 then [CHR 0x5C, CHR ''f'']
      else if n = 13 then [CHR 0x5C, CHR ''r'']
      else if n < 32 then [CHR 0x5C, CHR ''u'', CHR ''0'', CHR ''0'', hex_digit (n div 16), hex_digit (n mod 16)]
      else [c])"

definition quote :: "string \<Rightarrow> string" where
  "quote s = [CHR 0x22] @ concat (map escape_char s) @ [CHR 0x22]"

text \<open>
  The text of a value inside a serialization: an undefined array element prints as
  \<open>null\<close>, an object member whose value is undefined is left out.
\<close>

fun json_text :: "jsval \<Rightarrow> string" where
  "json_text Undefined = ''null''"
| "json_text Null = ''null''"
| "json_text (Bool b) = (if b then ''true'' else ''false'')"
| "json_text (Num n) = show_int n"
| "json_text (Str s) = quote s"
| "json_text (Arr xs) = ''['' @ join '','' (map json_text xs) @ '']''"
| "json_text (Obj kvs) =
     ''{'' @ join '','' (map (\<lambda>(k, v). quote k @ '':'' @ json_text v)
                              (filter (\<lambda>(k, v). v \<noteq> Undefined) kvs)) @ ''}''"

text \<open>\<open>JSON.stringify(v)\<close>: the value \<open>undefined\<close> for \<open>undefined\<close>, a string otherwise.\<close>

definition JSON_stringify :: "jsval \<Rightarrow> jsval" where
  "JSON_stringify v = (if v = Undefined then Undefined else Str (json_text v))"

section \<open>Source adapters (\<open>webhooks.js\<close>)\<close>

text \<open>A normalized feedback item \<open>{content, metadata}\<close>.\<close>

record item =
  content :: jsval
  metadata :: jsval

subsection \<open>GitHub\<close>

text \<open>\<open>labels?.map(l => l.name) || []\<close>\<close>

definition label_names :: "jsval \<Rightarrow> exn + jsval" where
  "label_names labels =
     (if nullish labels then Inr (Arr [])
      else case labels of
             Arr ls \<Rightarrow> andThen (mapE (\<lambda>l. get_prop l ''name'') ls) (\<lambda>names. Inr (Arr names))
           | _ \<Rightarrow> Inl (TypeError ''payload.issue.labels?.map is not a function''))"

definition parseGitHubWebhook :: "jsval \<Rightarrow> exn + item list" where
  "parseGitHubWebhook payload =
     andThen (get_prop payload ''issue'') (\<lambda>issue.
     andThen
       (if truthy issue
        then andThen (label_names (read issue ''labels'')) (\<lambda>labels. Inr
          [\<lparr>content = Str (''Issue #'' @ to_str (read issue ''number'') @ '': ''
               @ to_str (read issue ''title'') @ ''\<newline>\<newline>''
               @ to_str (js_or (read issue ''body'') (Str []))),
            metadata = Obj
              [(''issue_number'', read issue ''number''),
               (''issue_url'', read issue ''html_url''),
               (''author'', opt (read issue ''user'') ''login''),
               (''labels'', labels),
               (''state'', read issue ''state''),
               (''action'', read payload ''action'')]\<rparr>])
        else Inr [])
       (\<lambda>issues.
          let comment = read payload ''comment'';
              comments =
                (if truthy comment \<and> truthy issue
                 then [\<lparr>content = Str (''Comment on Issue #'' @ to_str (read issue ''number'')
                          @ '': '' @ to_str (read comment ''body'')),
                        metadata = Obj
                          [(''issue_number'', read issue ''number''),
                           (''issue_url'', read issue ''html_url''),
                           (''comment_id'', read comment ''id''),
                           (''author'', opt (read comment ''user'') ''login''),
                           (''action'', read payload ''action'')]\<rparr>]
                 else []);
              discussion = read payload ''discussion'';
              discussions =
                (if truthy discussion
                 then [\<lparr>content = Str (''Discussion: '' @ to_str (read discussion ''title'')
                          @ ''\<newline>\<newline>''
                          @ to_str (js_or (read discussion ''body'') (Str []))),
                        metadata = Obj
                          [(''discussion_number'', read discussion ''number''),
                           (''discussion_url'', read discussion ''html_url''),
                           (''author'', opt (read discussion ''user'') ''login''),
                           (''category'', opt (read discussion ''category'') ''name''),
                           (''action'', read payload ''action'')]\<rparr>]
                 else [])
          in Inr (issues @ comments @ discussions)))"

subsection \<open>Discord\<close>

text \<open>
  \<open>x > 0\<close> for the value of a \<open>length\<close> property: undefined compares as NaN,
  null as 0, a plain object as NaN.
\<close>

fun gt_zero :: "jsval \<Rightarrow> exn + bool" where
  "gt_zero (Num n) = Inr (0 < n)"
| "gt_zero (Bool b) = Inr b"
| "gt_zero Undefined = Inr False"
| "gt_zero Null = Inr False"
| "gt_zero (Obj kvs) = Inr False"
| "gt_zero v = Inl (Unsupported ''a string compared with a number'')"

text \<open>\<open>v.length > 0\<close> for a truthy \<open>v\<close>.\<close>

fun length_gt_zero :: "jsval \<Rightarrow> exn + bool" where
  "length_gt_zero (Arr xs) = Inr (xs \<noteq> [])"
| "length_gt_zero (Str s) = Inr (s \<noteq> [])"
| "length_gt_zero (Obj kvs) = gt_zero (read (Obj kvs) ''length'')"
| "length_gt_zero v = Inr False"

text \<open>\<open>f => `**${f.name}**: ${f.value}`\<close>\<close>

definition field_text :: "jsval \<Rightarrow> exn + string" where
  "field_text f =
     andThen (get_prop f ''name'') (\<lambda>name.
       Inr (''**'' @ to_str name @ ''**: '' @ to_str (read f ''value'')))"

definition embed_text :: "jsval \<Rightarrow> exn + string" where
  "embed_text embed_obj =
     andThen (get_prop embed_obj ''title'') (\<lambda>title.
       let text1 = (if truthy title then ''**'' @ to_str title @ ''**\<newline>'' else []);
           description = read embed_obj ''description'';
           text2 = text1 @ (if truthy description then to_str description @ ''\<newline>'' else []);
           fields = read embed_obj ''fields''
       in if truthy fields
          then (case fields of
                  Arr fs \<Rightarrow> andThen (mapE field_text fs) (\<lambda>lines. Inr (text2 @ join ''\<newline>'' lines))
                | _ \<Rightarrow> Inl (TypeError ''embed.fields.map is not a function''))
          else Inr text2)"

definition parseDiscordWebhook :: "jsval \<Rightarrow> exn + item list" where
  "parseDiscordWebhook payload =
     andThen (get_prop payload ''content'') (\<lambda>c.
       let embeds = read payload ''embeds'' in
       if truthy c \<or> truthy embeds
       then
         andThen
           (if truthy embeds
            then andThen (length_gt_zero embeds) (\<lambda>some.
                   if some
                   then (case embeds of
                           Arr es \<Rightarrow> andThen (mapE embed_text es) (\<lambda>texts.
                             Inr (Str (to_str (js_or c (Str [])) @ ''\<newline>\<newline>''
                                       @ join ''\<newline>\<newline>'' texts)))
                         | _ \<Rightarrow> Inl (TypeError ''payload.embeds.map is not a function''))
                   else Inr (js_or c (Str [])))
            else Inr (js_or c (Str [])))
           (\<lambda>content'.
              case content' of
                Str s \<Rightarrow> Inr
                  [\<lparr>content = Str (trim s),
                    metadata = Obj
                      [(''channel_id'', read payload ''channel_id''),
                       (''guild_id'', read payload ''guild_id''),
                       (''author'', js_or (opt (read payload ''author'') ''username'')
                                          (opt (read payload ''author'') ''name'')),
                       (''author_id'', opt (read payload ''author'') ''id''),
                       (''message_id'', read payload ''id''),
                       (''timestamp'', read payload ''timestamp'')]\<rparr>]
              | _ \<Rightarrow> Inl (TypeError ''content.trim is not a function''))
       else Inr [])"

subsection \<open>Twitter\<close>

definition parseTwitterWebhook :: "jsval \<Rightarrow> exn + item list" where
  "parseTwitterWebhook payload =
     andThen (get_prop payload ''tweet'') (\<lambda>tweet.
       let tweets =
             (if truthy tweet
              then [\<lparr>content = js_or (js_or (read tweet ''text'') (read tweet ''full_text'')) (Str []),
                     metadata = Obj
                       [(''tweet_id'', read tweet ''id''),
                        (''author'', opt (read tweet ''user'') ''screen_name''),
                        (''author_id'', opt (read tweet ''user'') ''id''),
                        (''created_at'', read tweet ''created_at''),
                        (''url'', Str (''https://twitter.com/''
                           @ to_str (opt (read tweet ''user'') ''screen_name'')
                           @ ''/status/'' @ to_str (read tweet ''id'')))]\<rparr>]
              else []);
           text = read payload ''text'';
           mentions =
             (if truthy text
              then [\<lparr>content = text,
                     metadata = Obj
                       [(''tweet_id'', read payload ''id''),
                        (''author'', read payload ''author''),
                        (''created_at'', read payload ''created_at''),
                        (''url'', read payload ''url'')]\<rparr>]
              else [])
       in Inr (tweets @ mentions))"

subsection \<open>Email\<close>

definition parseEmailWebhook :: "jsval \<Rightarrow> exn + item list" where
  "parseEmailWebhook payload =
     andThen (get_prop payload ''subject'') (\<lambda>subject.
       if truthy (js_or (js_or subject (read payload ''body'')) (read payload ''text''))
       then Inr
         [\<lparr>content = Str (''Subject: '' @ to_str (js_or subject (Str ''No Subject''))
              @ ''\<newline>\<newline>''
              @ to_str (js_or (js_or (js_or (read payload ''body'') (read payload ''text''))
                                     (read payload ''html'')) (Str []))),
           metadata = Obj
             [(''from'', js_or (read payload ''from'') (read payload ''sender'')),
              (''to'', js_or (read payload ''to'') (read payload ''recipient'')),
              (''subject'', subject),
              (''message_id'', js_or (read payload ''message_id'') (read payload ''id'')),
              (''date'', js_or (read payload ''date'') (read payload ''timestamp''))]\<rparr>]
       else Inr [])"

subsection \<open>Support tickets\<close>

definition parseSupportTicketWebhook :: "jsval \<Rightarrow> exn + item list" where
  "parseSupportTicketWebhook payload =
     andThen (get_prop payload ''ticket'') (\<lambda>ticket.
       if truthy ticket
       then Inr
         [\<lparr>content = Str (''Ticket #'' @ to_str (js_or (read ticket ''id'') (read ticket ''number''))
              @ '': '' @ to_str (js_or (read ticket ''subject'') (read ticket ''title''))
              @ ''\<newline>\<newline>''
              @ to_str (js_or (js_or (js_or (read ticket ''description'') (read ticket ''body''))
                                     (read ticket ''content'')) (Str []))),
           metadata = Obj
             [(''ticket_id'', js_or (read ticket ''id'') (read ticket ''number'')),
              (''status'', read ticket ''status''),
              (''priority'', read ticket ''priority''),
              (''requester'', js_or (read ticket ''requester'') (read ticket ''customer'')),
              (''created_at'', js_or (read ticket ''created_at'') (read ticket ''created'')),
              (''url'', read ticket ''url'')]\<rparr>]
       else if truthy (js_or (read payload ''subject'') (read payload ''content''))
       then Inr
         [\<lparr>content = Str (''Subject: '' @ to_str (js_or (read payload ''subject'') (Str ''No Subject''))
              @ ''\<newline>\<newline>''
              @ to_str (js_or (js_or (js_or (read payload ''content'') (read payload ''body''))
                                     (read payload ''description'')) (Str []))),
           metadata = Obj
             [(''ticket_id'', js_or (read payload ''id'') (read payload ''ticket_id'')),
              (''status'', read payload ''status''),
              (''priority'', read payload ''priority''),
              (''requester'', js_or (read payload ''requester'') (read payload ''customer'')),
              (''created_at'', js_or (read payload ''created_at'') (read payload ''created''))]\<rparr>]
       else Inr [])"

subsection \<open>Forum\<close>

definition parseForumWebhook :: "jsval \<Rightarrow> exn + item list" where
  "parseForumWebhook payload =
     andThen (get_prop payload ''post'') (\<lambda>post.
       if truthy post
       then Inr
         [\<lparr>content = Str (''Post: '' @ to_str (js_or (read post ''title'') (Str ''No Title''))
              @ ''\<newline>\<newline>''
              @ to_str (js_or (js_or (js_or (read post ''content'') (read post ''body''))
                                     (read post ''text'')) (Str []))),
           metadata = Obj
             [(''post_id'', read post ''id''),
              (''author'', js_or (read post ''author'') (read post ''user'')),
              (''forum'', js_or (read post ''forum'') (read payload ''forum'')),
              (''category'', read post ''category''),
              (''created_at'', js_or (read post ''created_at'') (read post ''created'')),
              (''url'', read post ''url'')]\<rparr>]
       else if truthy (js_or (read payload ''title'') (read payload ''content''))
       then Inr
         [\<lparr>content = Str (''Post: '' @ to_str (js_or (read payload ''title'') (Str ''No Title''))
              @ ''\<newline>\<newline>''
              @ to_str (js_or (js_or (js_or (read payload ''content'') (read payload ''body''))
                                     (read payload ''text'')) (Str []))),
           metadata = Obj
             [(''post_id'', read payload ''id''),
              (''author'', js_or (read payload ''author'') (read payload ''user'')),
              (''forum'', read payload ''forum''),
              (''category'', read payload ''category''),
              (''created_at'', js_or (read payload ''created_at'') (read payload ''created'')),
              (''url'', read payload ''url'')]\<rparr>]
       else Inr [])"

subsection \<open>The router\<close>

text \<open>
  What \<open>parsers[key]\<close> finds for a lowercased key. \<open>parsers\<close> is an object literal,
  so a key that is not one of its six own properties is looked up in
  \<open>Object.prototype\<close>: \<open>constructor\<close> is the function \<open>Object\<close> and \<open>__proto__\<close>
  is \<open>Object.prototype\<close> itself. Every other inherited name holds a capital letter
  and never equals a lowercased key. Any other key is undefined.
\<close>

datatype parser =
    Adapter "jsval \<Rightarrow> exn + item list"
  | ObjectConstructor
  | ObjectPrototype
  | NoParser

definition parsers :: "string \<Rightarrow> parser" where
  "parsers key =
     (if key = ''github'' then Adapter parseGitHubWebhook
      else if key = ''discord'' then Adapter parseDiscordWebhook
      else if key = ''twitter'' then Adapter parseTwitterWebhook
      else if key = ''email'' then Adapter parseEmailWebhook
      else if key = ''support'' then Adapter parseSupportTicketWebhook
      else if key = ''forum'' then Adapter parseForumWebhook
      else if key = ''constructor'' then ObjectConstructor
      else if key = ''__proto__'' then ObjectPrototype
      else NoParser)"

text \<open>
  What \<open>parseWebhook\<close> returns: an array of items, or, when the parser found is the
  function \<open>Object\<close>, the payload converted to an object.
\<close>

datatype parsed = Items "item list" | Boxed jsval

definition parseWebhook :: "string \<Rightarrow> jsval \<Rightarrow> exn + parsed" where
  "parseWebhook source payload =
     (case parsers (toLowerCase source) of
        NoParser \<Rightarrow> Inr (Items
          [\<lparr>content = (case payload of Str s \<Rightarrow> payload | _ \<Rightarrow> JSON_stringify payload),
            metadata = Obj [(''raw'', Bool True)]\<rparr>])
      | Adapter parser \<Rightarrow> andThen (parser payload) (\<lambda>items. Inr (Items items))
      | ObjectConstructor \<Rightarrow> Inr (Boxed payload)
      | ObjectPrototype \<Rightarrow> Inl (TypeError ''parser is not a function''))"

text \<open>What the specification calls a payload an adapter recognizes, and an item with content.\<close>

definition adapter_names :: "string list" where
  "adapter_names = [''github'', ''discord'', ''twitter'', ''email'', ''support'', ''forum'']"



section \<open>The store (\<open>schema.sql\<close>, \<open>db.js\<close>)\<close>

text \<open>
  A TEXT cell written with \<open>JSON.stringify\<close> and read with \<open>JSON.parse\<close> is kept as
  the value \<open>JSON.parse\<close> reads from it: \<open>Json v\<close>. \<open>NullCell\<close> is SQL NULL and
  \<open>Garbled\<close> a text that \<open>JSON.parse\<close> rejects. \<open>json_value v\<close> is the value read
  back from \<open>JSON.stringify(v)\<close>: members whose value is undefined are gone and an
  undefined array element is null.
\<close>

datatype cell = NullCell | Json jsval | Garbled

fun json_value :: "jsval \<Rightarrow> jsval" where
  "json_value Undefined = Null"
| "json_value (Arr xs) = Arr (map json_value xs)"
| "json_value (Obj kvs) =
     Obj (map (\<lambda>(k, v). (k, json_value v)) (filter (\<lambda>(k, v). v \<noteq> Undefined) kvs))"
| "json_value v = v"

text \<open>The three tables. Other bound values are kept as they are bound.\<close>

record feedback_row =
  fb_id :: nat
  fb_source :: string
  fb_content :: jsval
  fb_metadata :: cell
  fb_created_at :: int
  fb_processed :: int

record source_summary =
  ss_id :: nat
  ss_source :: string
  ss_summary :: jsval
  ss_date_range_start :: int
  ss_date_range_end :: int
  ss_feedback_count :: int
  ss_created_at :: int

record aggregated_summary =
  ag_id :: nat
  ag_summary :: jsval
  ag_date_range_start :: int
  ag_date_range_end :: int
  ag_source_count :: int
  ag_total_feedback_count :: int
  ag_created_at :: int

text \<open>The statements sent to the database, in the order they were sent.\<close>

datatype call =
    InsertFeedback nat
  | SelectFeedbackByIds "nat list"
  | SelectUnprocessed string nat
  | UpdateProcessed "nat list"
  | InsertSourceSummary nat
  | SelectSourceSummaries int int
  | InsertAggregatedSummary nat
  | Rejected

record world =
  feedback :: "feedback_row list"
  source_summaries :: "source_summary list"
  aggregated_summaries :: "aggregated_summary list"
  calls :: "call list"

text \<open>
  The collaborators. \<open>ai\<close> is \<open>AI.run\<close> on a request (the model name and the
  temperature are the same in every call); it returns a value or throws. \<open>clock n\<close> is
  \<open>Math.floor(Date.now() / 1000)\<close> read after \<open>n\<close> statements were sent, \<open>fails n\<close>
  says that the database throws on the statement sent after \<open>n\<close> others, and
  \<open>date_text\<close> is \<open>new Date(t * 1000).toLocaleDateString()\<close>. The text of the
  error of a rejected statement is the database's and is not modelled: it is one
  fixed text.
\<close>

record ai_request =
  ai_system :: string
  ai_user :: string
  ai_max_tokens :: nat

record env =
  ai :: "ai_request \<Rightarrow> exn + jsval"
  clock :: "nat \<Rightarrow> int"
  fails :: "nat \<Rightarrow> bool"
  date_text :: "int \<Rightarrow> string"

type_synonym 'a io = "world \<Rightarrow> (exn + 'a) \<times> world"

definition returnIO :: "'a \<Rightarrow> 'a io" where
  "returnIO a w = (Inr a, w)"

definition bindIO :: "'a io \<Rightarrow> ('a \<Rightarrow> 'b io) \<Rightarrow> 'b io" where
  "bindIO m f w = (case m w of (Inl e, w') \<Rightarrow> (Inl e, w') | (Inr a, w') \<Rightarrow> f a w')"

definition liftE :: "exn + 'a \<Rightarrow> 'a io" where
  "liftE r w = (r, w)"

definition now :: "env \<Rightarrow> world \<Rightarrow> int" where
  "now e w = clock e (length (calls w))"

definition rejected :: "'a io" where
  "rejected w = (Inl (Error ''D1_ERROR''), w\<lparr>calls := calls w @ [Rejected]\<rparr>)"

text \<open>
  \<open>INTEGER PRIMARY KEY AUTOINCREMENT\<close>: one more than the largest id of the table
  (no row is ever deleted).
\<close>

definition next_id :: "nat list \<Rightarrow> nat" where
  "next_id ids = Suc (fold max ids 0)"

definition insertFeedback :: "env \<Rightarrow> string \<Rightarrow> jsval \<Rightarrow> jsval \<Rightarrow> nat io" where
  "insertFeedback e source content' metadata' w =
     (if fails e (length (calls w)) then rejected w
      else
        let new_id = next_id (map fb_id (feedback w));
            row = \<lparr>fb_id = new_id, fb_source = source, fb_content = content',
                   fb_metadata = Json (json_value (if metadata' = Undefined then Obj [] else metadata')),
                   fb_created_at = now e w, fb_processed = 0\<rparr>
        in (Inr new_id, w\<lparr>feedback := feedback w @ [row],
                           calls := calls w @ [InsertFeedback new_id]\<rparr>))"

text \<open>
  \<open>SELECT * FROM feedback WHERE source = ? AND processed = 0 ORDER BY created_at ASC
  LIMIT ?\<close>; rows of equal \<open>created_at\<close> stay in the order of their ids.
\<close>

definition getUnprocessedFeedback :: "env \<Rightarrow> string \<Rightarrow> nat \<Rightarrow> feedback_row list io" where
  "getUnprocessedFeedback e source limit w =
     (if fails e (length (calls w)) then rejected w
      else (Inr (take limit (sort_key fb_created_at
                   (filter (\<lambda>r. fb_source r = source \<and> fb_processed r = 0) (feedback w)))),
            w\<lparr>calls := calls w @ [SelectUnprocessed source limit]\<rparr>))"

text \<open>
  \<open>markFeedbackProcessed\<close> returns \<open>result.meta.changes\<close>, the number of rows the
  UPDATE touched, and nothing (\<open>undefined\<close>) when the list of ids is empty.
\<close>

definition markFeedbackProcessed :: "env \<Rightarrow> nat list \<Rightarrow> jsval io" where
  "markFeedbackProcessed e feedbackIds w =
     (if feedbackIds = [] then (Inr Undefined, w)
      else if fails e (length (calls w)) then rejected w
      else (Inr (Num (int (length (filter (\<lambda>r. fb_id r \<in> set feedbackIds) (feedback w))))),
            w\<lparr>feedback := map (\<lambda>r. if fb_id r \<in> set feedbackIds then r\<lparr>fb_processed := 1\<rparr> else r)
                              (feedback w),
              calls := calls w @ [UpdateProcessed feedbackIds]\<rparr>))"

definition insertSourceSummary ::
    "env \<Rightarrow> string \<Rightarrow> jsval \<Rightarrow> int \<Rightarrow> int \<Rightarrow> int \<Rightarrow> nat io" where
  "insertSourceSummary e source summary dateRangeStart dateRangeEnd feedbackCount w =
     (if fails e (length (calls w)) then rejected w
      else
        let new_id = next_id (map ss_id (source_summaries w));
            row = \<lparr>ss_id = new_id, ss_source = source, ss_summary = summary,
                   ss_date_range_start = dateRangeStart, ss_date_range_end = dateRangeEnd,
                   ss_feedback_count = feedbackCount, ss_created_at = now e w\<rparr>
        in (Inr new_id, w\<lparr>source_summaries := source_summaries w @ [row],
                           calls := calls w @ [InsertSourceSummary new_id]\<rparr>))"

text \<open>
  \<open>SELECT * FROM source_summaries WHERE date_range_start >= ? AND date_range_end <= ?
  ORDER BY created_at DESC\<close>
\<close>

definition getSourceSummaries :: "env \<Rightarrow> int \<Rightarrow> int \<Rightarrow> source_summary list io" where
  "getSourceSummaries e dateRangeStart dateRangeEnd w =
     (if fails e (length (calls w)) then rejected w
      else (Inr (sort_key (\<lambda>s. - ss_created_at s)
                   (filter (\<lambda>s. dateRangeStart \<le> ss_date_range_start s
                                  \<and> ss_date_range_end s \<le> dateRangeEnd)
                      (source_summaries w))),
            w\<lparr>calls := calls w @ [SelectSourceSummaries dateRangeStart dateRangeEnd]\<rparr>))"

definition insertAggregatedSummary ::
    "env \<Rightarrow> jsval \<Rightarrow> int \<Rightarrow> int \<Rightarrow> int \<Rightarrow> int \<Rightarrow> nat io" where
  "insertAggregatedSummary e summary dateRangeStart dateRangeEnd sourceCount totalFeedbackCount w =
     (if fails e (length (calls w)) then rejected w
      else
        let new_id = next_id (map ag_id (aggregated_summaries w));
            row = \<lparr>ag_id = new_id, ag_summary = summary,
                   ag_date_range_start = dateRangeStart, ag_date_range_end = dateRangeEnd,
                   ag_source_count = sourceCount, ag_total_feedback_count = totalFeedbackCount,
                   ag_created_at = now e w\<rparr>
        in (Inr new_id, w\<lparr>aggregated_summaries := aggregated_summaries w @ [row],
                           calls := calls w @ [InsertAggregatedSummary new_id]\<rparr>))"

text \<open>
  \<open>SELECT * FROM feedback WHERE id IN (...) AND processed = 0\<close>, the reload of both
  pipelines.
\<close>

definition selectUnprocessedByIds :: "env \<Rightarrow> nat list \<Rightarrow> feedback_row list io" where
  "selectUnprocessedByIds e feedbackIds w =
     (if fails e (length (calls w)) then rejected w
      else (Inr (filter (\<lambda>r. fb_id r \<in> set feedbackIds \<and> fb_processed r = 0) (feedback w)),
            w\<lparr>calls := calls w @ [SelectFeedbackByIds feedbackIds]\<rparr>))"

section \<open>The summarizer (\<open>summarize.js\<close>)\<close>

definition separator :: string where
  "separator = ''\<newline>\<newline>---\<newline>\<newline>''"

definition feedback_prompt :: "string \<Rightarrow> string" where
  "feedback_prompt combinedContent =
     ''You are a product feedback analyst. Analyze the following feedback items and create a concise summary that highlights:\<newline>''
     @ ''1. Main themes and topics\<newline>''
     @ ''2. Common pain points or issues\<newline>''
     @ ''3. Positive feedback or praise\<newline>''
     @ ''4. Suggestions or feature requests\<newline>''
     @ ''5. Overall sentiment\<newline>''
     @ ''\<newline>''
     @ ''Feedback items:\<newline>''
     @ combinedContent @ ''\<newline>''
     @ ''\<newline>''
     @ ''Provide a well-structured summary that would help a product manager understand the key insights from this feedback.''"

definition feedback_request :: "string \<Rightarrow> ai_request" where
  "feedback_request prompt =
     \<lparr>ai_system = ''You are a helpful assistant that summarizes product feedback concisely and clearly.'',
      ai_user = prompt, ai_max_tokens = 1000\<rparr>"

text \<open>\<open>typeof item.metadata === 'string' ? JSON.parse(item.metadata) : item.metadata\<close>\<close>

definition parsed_metadata :: "cell \<Rightarrow> exn + jsval" where
  "parsed_metadata c =
     (case c of
        NullCell \<Rightarrow> Inr Null
      | Json v \<Rightarrow> Inr v
      | Garbled \<Rightarrow> Inl (SyntaxError ''Unexpected token in JSON''))"

text \<open>
  One entry of the prompt, from the row and its parsed metadata:
  \<open>Feedback ${index + 1}:\<close>, the content, and the author when the metadata has one.
\<close>

definition feedback_text :: "(cell \<Rightarrow> exn + jsval) \<Rightarrow> nat \<times> feedback_row \<Rightarrow> exn + string" where
  "feedback_text parse entry =
     (case entry of (index, item) \<Rightarrow>
        andThen (parse (fb_metadata item)) (\<lambda>metadata'.
        andThen (get_prop metadata' ''author'') (\<lambda>author.
          Inr (''Feedback '' @ show_nat (index + 1) @ '':\<newline>'' @ to_str (fb_content item)
               @ (if truthy author then ''\<newline>[From: '' @ to_str author @ '']'' else [])))))"

text \<open>
  The summary taken from the model's response: its \<open>response\<close> member when truthy,
  the response itself when it is a string, its JSON text otherwise.
\<close>

definition extract_summary :: "jsval \<Rightarrow> exn + jsval" where
  "extract_summary response =
     andThen (get_prop response ''response'') (\<lambda>r.
       if truthy r then Inr r
       else case response of Str s \<Rightarrow> Inr response | _ \<Rightarrow> Inr (JSON_stringify response))"

definition generateSummary :: "env \<Rightarrow> feedback_row list \<Rightarrow> exn + jsval" where
  "generateSummary e feedbackItems =
     (if feedbackItems = [] then Inr (Str ''No feedback to summarize.'')
      else
        andThen (mapE (feedback_text parsed_metadata) (enumerate 0 feedbackItems)) (\<lambda>texts.
          case andThen (ai e (feedback_request (feedback_prompt (join separator texts)))) extract_summary of
            Inr summary \<Rightarrow> Inr summary
          | Inl error \<Rightarrow> Inr (Str (''Summary of '' @ show_nat (length feedbackItems)
                @ '' feedback items. Error generating AI summary: '' @ message error))))"

text \<open>\<open>Math.min(...ts)\<close> and \<open>Math.max(...ts)\<close>; of no numbers they are infinite.\<close>

definition math_min :: "int list \<Rightarrow> exn + int" where
  "math_min ts = (case ts of [] \<Rightarrow> Inl (Unsupported ''Infinity'') | t # rest \<Rightarrow> Inr (fold min rest t))"

definition math_max :: "int list \<Rightarrow> exn + int" where
  "math_max ts = (case ts of [] \<Rightarrow> Inl (Unsupported ''-Infinity'') | t # rest \<Rightarrow> Inr (fold max rest t))"

text \<open>
  \<open>processFeedbackBatch\<close> is given the stored records (here their ids); it catches
  every failure and returns nothing.
\<close>

definition processFeedbackBatch :: "env \<Rightarrow> string \<Rightarrow> nat list \<Rightarrow> unit io" where
  "processFeedbackBatch e source feedbackData w =
     (if feedbackData = [] then (Inr (), w)
      else
        case bindIO (selectUnprocessedByIds e feedbackData) (\<lambda>feedbackItems.
               if feedbackItems = [] then returnIO ()
               else
                 bindIO (liftE (generateSummary e feedbackItems)) (\<lambda>summary.
                 bindIO (liftE (math_min (map fb_created_at feedbackItems))) (\<lambda>dateRangeStart.
                 bindIO (liftE (math_max (map fb_created_at feedbackItems))) (\<lambda>dateRangeEnd.
                 bindIO (insertSourceSummary e source summary dateRangeStart dateRangeEnd
                           (int (length feedbackItems))) (\<lambda>summaryId.
                 bindIO (markFeedbackProcessed e feedbackData) (\<lambda>changes. returnIO ())))))) w
        of (Inl error, w') \<Rightarrow> (Inr (), w')
         | (Inr u, w') \<Rightarrow> (Inr (), w'))"

section \<open>The feedback processing workflow (\<open>FeedbackProcessingWorkflow.js\<close>)\<close>

text \<open>
  Each \<open>step.do\<close> is its callback, run once: a step that throws ends the run with
  that error, and what the runtime does with a failed run is outside the file.
\<close>

text \<open>Step 1, \<open>store-feedback\<close>: the ids of the inserted rows and the number of items.\<close>

record stored_feedback =
  sf_feedbackIds :: "nat list"
  sf_count :: nat

fun store_items :: "env \<Rightarrow> string \<Rightarrow> item list \<Rightarrow> nat list \<Rightarrow> nat list io" where
  "store_items e source [] feedbackIds = returnIO feedbackIds"
| "store_items e source (it # rest) feedbackIds =
     bindIO (insertFeedback e source (content it) (js_or (metadata it) (Obj [])))
       (\<lambda>new_id. store_items e source rest (feedbackIds @ [new_id]))"

definition store_feedback :: "env \<Rightarrow> string \<Rightarrow> item list \<Rightarrow> stored_feedback io" where
  "store_feedback e source feedbackItems =
     bindIO (store_items e source feedbackItems [])
       (\<lambda>feedbackIds. returnIO \<lparr>sf_feedbackIds = feedbackIds, sf_count = length feedbackItems\<rparr>)"

text \<open>Step 2, \<open>fetch-feedback-records\<close>.\<close>

definition fetch_feedback_records :: "env \<Rightarrow> stored_feedback \<Rightarrow> feedback_row list io" where
  "fetch_feedback_records e storedFeedback = selectUnprocessedByIds e (sf_feedbackIds storedFeedback)"

text \<open>
  Step 3, \<open>generate-summary\<close>. The metadata of a record is
  \<open>typeof item.metadata === 'string' ? JSON.parse(item.metadata) : item.metadata || {}\<close>,
  and the \<open>catch\<close> throws a new error.
\<close>

definition record_metadata :: "cell \<Rightarrow> exn + jsval" where
  "record_metadata c =
     (case c of
        NullCell \<Rightarrow> Inr (Obj [])
      | Json v \<Rightarrow> Inr v
      | Garbled \<Rightarrow> Inl (SyntaxError ''Unexpected token in JSON''))"

definition generate_summary :: "env \<Rightarrow> feedback_row list \<Rightarrow> exn + jsval" where
  "generate_summary e feedbackRecords =
     andThen (mapE (feedback_text record_metadata) (enumerate 0 feedbackRecords)) (\<lambda>texts.
       case andThen (ai e (feedback_request (feedback_prompt (join separator texts)))) extract_summary of
         Inr summary \<Rightarrow> Inr summary
       | Inl error \<Rightarrow> Inl (Error (''Failed to generate summary: '' @ message error)))"

text \<open>Step 4, \<open>store-summary\<close>: the date range, the insert, and what the step returns.\<close>

definition store_summary ::
    "env \<Rightarrow> string \<Rightarrow> jsval \<Rightarrow> feedback_row list \<Rightarrow> (int \<times> int \<times> int) io" where
  "store_summary e source summary feedbackRecords =
     bindIO (liftE (math_min (map fb_created_at feedbackRecords))) (\<lambda>dateRangeStart.
     bindIO (liftE (math_max (map fb_created_at feedbackRecords))) (\<lambda>dateRangeEnd.
     bindIO (insertSourceSummary e source summary dateRangeStart dateRangeEnd
               (int (length feedbackRecords))) (\<lambda>summaryId.
       returnIO (dateRangeStart, dateRangeEnd, int (length feedbackRecords)))))"

text \<open>Step 5, \<open>mark-processed\<close>.\<close>

definition mark_processed :: "env \<Rightarrow> stored_feedback \<Rightarrow> nat io" where
  "mark_processed e storedFeedback =
     bindIO (markFeedbackProcessed e (sf_feedbackIds storedFeedback))
       (\<lambda>changes. returnIO (length (sf_feedbackIds storedFeedback)))"

text \<open>
  The three results of \<open>run\<close>: no items, nothing unprocessed among the stored ids,
  or the ids with the summary's date range and count and the preview of the summary.
\<close>

datatype workflow_result =
    NoFeedbackItems
  | NoUnprocessedFeedback "nat list"
  | ProcessedFeedback "nat list" "int \<times> int \<times> int" string

text \<open>
  \<open>run\<close> after its first step has returned \<open>storedFeedback\<close>: the early exit, then
  steps 2 to 5 and the result.
\<close>

definition after_store :: "env \<Rightarrow> string \<Rightarrow> stored_feedback \<Rightarrow> workflow_result io" where
  "after_store e source storedFeedback =
     (if sf_count storedFeedback = 0 then returnIO NoFeedbackItems
      else
        bindIO (fetch_feedback_records e storedFeedback) (\<lambda>feedbackRecords.
          if feedbackRecords = [] then returnIO (NoUnprocessedFeedback (sf_feedbackIds storedFeedback))
          else
            bindIO (liftE (generate_summary e feedbackRecords)) (\<lambda>summary.
            bindIO (store_summary e source summary feedbackRecords) (\<lambda>summaryResult.
            bindIO (mark_processed e storedFeedback) (\<lambda>marked.
              liftE (case summary of
                       Str s \<Rightarrow> Inr (ProcessedFeedback (sf_feedbackIds storedFeedback) summaryResult
                                       (take 200 s @ ''...''))
                     | _ \<Rightarrow> Inl (TypeError ''summary.substring is not a function'')))))))"

definition FeedbackProcessingWorkflow_run :: "env \<Rightarrow> string \<Rightarrow> item list \<Rightarrow> workflow_result io" where
  "FeedbackProcessingWorkflow_run e source feedbackItems =
     bindIO (store_feedback e source feedbackItems) (after_store e source)"

section \<open>\<open>POST /api/summarize/:source\<close> (\<open>index.js\<close>)\<close>

text \<open>
  \<open>env.FEEDBACK_WORKFLOW\<close> is a Workflow binding of the Workers runtime, which is not
  code of the repository. The members of a Workflow binding are \<open>create\<close>,
  \<open>createBatch\<close> and \<open>get\<close>; the \<open>run\<close> of the class \<open>FeedbackProcessingWorkflow\<close>
  is a method of the instances the runtime creates, not of the binding. Any other member
  of the binding reads as \<open>undefined\<close>, and the call of \<open>undefined\<close> throws a TypeError
  once its arguments are evaluated. The program calls none of the three members, and
  what they do is not modelled.
\<close>

definition workflow_members :: "string list" where
  "workflow_members = [''create'', ''createBatch'', ''get'']"

definition call_binding :: "string \<Rightarrow> string \<Rightarrow> item list \<Rightarrow> unit io" where
  "call_binding binding member params =
     liftE (if member \<in> set workflow_members
            then Inl (Unsupported (''env.'' @ binding @ ''.'' @ member))
            else Inl (TypeError (''env.'' @ binding @ ''.'' @ member @ '' is not a function'')))"

datatype response =
    NoUnprocessedResponse string
  | WorkflowStarted string nat
  | ErrorResponse string

text \<open>
  \<open>days\<close> is \<open>parseInt(body.days || '1')\<close>, \<open>None\<close> when that is NaN (no
  timestamp is then at or after the cutoff).
\<close>

definition recent_feedback :: "env \<Rightarrow> world \<Rightarrow> int option \<Rightarrow> feedback_row list \<Rightarrow> feedback_row list" where
  "recent_feedback e w days feedbackItems =
     (case days of
        None \<Rightarrow> []
      | Some d \<Rightarrow> filter (\<lambda>f. now e w - d * 24 * 60 * 60 \<le> fb_created_at f) feedbackItems)"

definition rewrap :: "feedback_row \<Rightarrow> exn + item" where
  "rewrap row =
     andThen (parsed_metadata (fb_metadata row)) (\<lambda>m. Inr \<lparr>content = fb_content row, metadata = m\<rparr>)"

definition summarize_route :: "env \<Rightarrow> string \<Rightarrow> int option \<Rightarrow> response io" where
  "summarize_route e source days w =
     (case bindIO (getUnprocessedFeedback e source 100) (\<lambda>feedbackItems.
             let recentFeedback = recent_feedback e w days feedbackItems in
             if recentFeedback = [] then returnIO (NoUnprocessedResponse source)
             else
               bindIO (liftE (mapE rewrap recentFeedback)) (\<lambda>params.
               bindIO (call_binding ''FEEDBACK_WORKFLOW'' ''run'' params) (\<lambda>workflowId.
                 returnIO (WorkflowStarted source (length recentFeedback))))) w
      of (Inl error, w') \<Rightarrow> (Inr (ErrorResponse (message error)), w')
       | (Inr r, w') \<Rightarrow> (Inr r, w'))"

section \<open>Aggregation (\<open>AggregationWorkflow.js\<close>, \<open>aggregate.js\<close>)\<close>

definition aggregation_prompt :: "string \<Rightarrow> string" where
  "aggregation_prompt combinedSummaries =
     ''You are a product manager analyzing feedback summaries from multiple sources. \<newline>''
     @ ''Create a comprehensive aggregated summary that:\<newline>''
     @ ''1. Identifies common themes across all sources\<newline>''
     @ ''2. Highlights the most critical issues or pain points\<newline>''
     @ ''3. Notes positive feedback and what users love\<newline>''
     @ ''4. Prioritizes feature requests and suggestions by frequency/importance\<newline>''
     @ ''5. Provides overall sentiment analysis\<newline>''
     @ ''6. Suggests actionable insights for the product team\<newline>''
     @ ''\<newline>''
     @ ''Source Summaries:\<newline>''
     @ combinedSummaries @ ''\<newline>''
     @ ''\<newline>''
     @ ''Provide a well-structured, executive-level summary that synthesizes insights from all sources.''"

definition aggregation_request :: "string \<Rightarrow> ai_request" where
  "aggregation_request prompt =
     \<lparr>ai_system = ''You are a product management assistant that synthesizes feedback from multiple sources into actionable insights.'',
      ai_user = prompt, ai_max_tokens = 1500\<rparr>"

definition summary_text :: "env \<Rightarrow> source_summary \<Rightarrow> string" where
  "summary_text e summary =
     ''Source: '' @ (if ss_source summary \<noteq> [] then ss_source summary else ''Unknown'')
     @ '' ('' @ show_int (ss_feedback_count summary) @ '' items, ''
     @ date_text e (ss_date_range_start summary) @ '' to ''
     @ date_text e (ss_date_range_end summary) @ '')\<newline>'' @ to_str (ss_summary summary)"

text \<open>The totals both aggregation paths store.\<close>

definition totalFeedbackCount :: "source_summary list \<Rightarrow> int" where
  "totalFeedbackCount summaries = fold (\<lambda>s sum. sum + ss_feedback_count s) summaries 0"

definition sourceCount :: "source_summary list \<Rightarrow> int" where
  "sourceCount summaries = int (length (remdups (map ss_source summaries)))"

datatype aggregation_result =
    NoSourceSummaries
  | Aggregated jsval int int "int \<times> int"
  | AggregationError string

definition generate_aggregated_summary :: "env \<Rightarrow> source_summary list \<Rightarrow> exn + jsval" where
  "generate_aggregated_summary e summaries =
     (case andThen (ai e (aggregation_request (aggregation_prompt
                      (join separator (map (summary_text e) summaries))))) extract_summary of
        Inr summary \<Rightarrow> Inr summary
      | Inl error \<Rightarrow> Inl (Error (''Failed to generate aggregated summary: '' @ message error)))"

definition AggregationWorkflow_run :: "env \<Rightarrow> int \<Rightarrow> aggregation_result io" where
  "AggregationWorkflow_run e days w =
     (let end_time = now e w; startTime = end_time - days * 24 * 60 * 60 in
      bindIO (getSourceSummaries e startTime end_time) (\<lambda>summaries.
        if summaries = [] then returnIO NoSourceSummaries
        else
          bindIO (liftE (generate_aggregated_summary e summaries)) (\<lambda>aggregatedSummary.
          bindIO (insertAggregatedSummary e aggregatedSummary startTime end_time
                    (sourceCount summaries) (totalFeedbackCount summaries)) (\<lambda>new_id.
            returnIO (Aggregated aggregatedSummary (sourceCount summaries)
                        (totalFeedbackCount summaries) (startTime, end_time))))) w)"

text \<open>\<open>aggregate.js\<close>: the summary falls back to a fixed text, and every failure is caught.\<close>

definition generateAggregatedSummary :: "env \<Rightarrow> source_summary list \<Rightarrow> jsval" where
  "generateAggregatedSummary e sourceSummaries =
     (if sourceSummaries = [] then Str ''No source summaries available to aggregate.''
      else
        case andThen (ai e (aggregation_request (aggregation_prompt
                        (join separator (map (summary_text e) sourceSummaries))))) extract_summary of
          Inr summary \<Rightarrow> summary
        | Inl error \<Rightarrow> Str (''Aggregated summary of '' @ show_nat (length sourceSummaries)
              @ '' sources covering '' @ show_int (totalFeedbackCount sourceSummaries)
              @ '' total feedback items. Error generating AI summary: '' @ message error))"

definition aggregateSummaries :: "env \<Rightarrow> int \<Rightarrow> aggregation_result io" where
  "aggregateSummaries e days w =
     (let end_time = now e w; startTime = end_time - days * 24 * 60 * 60 in
      case bindIO (getSourceSummaries e startTime end_time) (\<lambda>sourceSummaries.
             if sourceSummaries = [] then returnIO NoSourceSummaries
             else
               let aggregatedSummary = generateAggregatedSummary e sourceSummaries in
               bindIO (insertAggregatedSummary e aggregatedSummary startTime end_time
                         (sourceCount sourceSummaries) (totalFeedbackCount sourceSummaries)) (\<lambda>new_id.
                 returnIO (Aggregated aggregatedSummary (sourceCount sourceSummaries)
                             (totalFeedbackCount sourceSummaries) (startTime, end_time)))) w
      of (Inl error, w') \<Rightarrow> (Inr (AggregationError (''Error: '' @ message error)), w')
       | (Inr r, w') \<Rightarrow> (Inr r, w'))"

section \<open>Notions used to state the properties\<close>

text \<open>The row \<open>insertFeedback\<close> writes for an item of the workflow.\<close>

definition new_row :: "env \<Rightarrow> string \<Rightarrow> item \<Rightarrow> world \<Rightarrow> feedback_row" where
  "new_row e source it w =
     \<lparr>fb_id = next_id (map fb_id (feedback w)), fb_source = source, fb_content = content it,
      fb_metadata = Json (json_value (js_or (metadata it) (Obj []))),
      fb_created_at = clock e (length (calls w)), fb_processed = 0\<rparr>"

text \<open>
  \<open>rows\<close> are what the store step wrote for \<open>items\<close> into a table holding \<open>old\<close>:
  one unprocessed row per item, in order, each with an id above every old id.
\<close>

definition stored :: "string \<Rightarrow> item list \<Rightarrow> feedback_row list \<Rightarrow> feedback_row list \<Rightarrow> bool" where
  "stored source items old rows \<longleftrightarrow>
     map fb_content rows = map content items
     \<and> map fb_metadata rows = map (\<lambda>it. Json (json_value (js_or (metadata it) (Obj [])))) items
     \<and> list_all (\<lambda>x. fb_processed x = 0 \<and> fb_source x = source
                     \<and> list_all (\<lambda>y. fb_id y < fb_id x) old) rows"

text \<open>The feedback rows and the statements a run added to a world.\<close>

definition added_rows :: "world \<Rightarrow> world \<Rightarrow> feedback_row list" where
  "added_rows w w' = drop (length (feedback w)) (feedback w')"

definition added_calls :: "world \<Rightarrow> world \<Rightarrow> call list" where
  "added_calls w w' = drop (length (calls w)) (calls w')"

fun is_mark :: "call \<Rightarrow> bool" where
  "is_mark (UpdateProcessed ids) = True"
| "is_mark c = False"



text \<open>The rows \<open>POST /api/summarize/:source\<close> fetches and keeps.\<close>

definition matched_feedback :: "env \<Rightarrow> world \<Rightarrow> string \<Rightarrow> int option \<Rightarrow> feedback_row list" where
  "matched_feedback e w source days =
     recent_feedback e w days
       (take 100 (sort_key fb_created_at
          (filter (\<lambda>r. fb_source r = source \<and> fb_processed r = 0) (feedback w))))"

text \<open>What both aggregation paths write for the fetched summaries and the window.\<close>

definition aggregates :: "source_summary list \<Rightarrow> int \<Rightarrow> int \<Rightarrow> aggregated_summary \<Rightarrow> bool" where
  "aggregates summaries start stop row \<longleftrightarrow>
     ag_source_count row = int (card (ss_source ` set summaries))
     \<and> ag_total_feedback_count row = sum_list (map ss_feedback_count summaries)
     \<and> ag_date_range_start row = start
     \<and> ag_date_range_end row = stop"

section \<open>Example data\<close>

text \<open>
  An environment in which the model answers and no statement fails, one in which the
  model call throws, an empty database and a few rows.
\<close>

definition quiet_env :: env where
  "quiet_env = \<lparr>ai = (\<lambda>request. Inr (Obj [(''response'', Str ''Users want dark mode.'')])),
                 clock = (\<lambda>n. 1000 + int n), fails = (\<lambda>n. False),
                 date_text = show_int\<rparr>"


definition empty_world :: world where
  "empty_world = \<lparr>feedback = [], source_summaries = [], aggregated_summaries = [], calls = []\<rparr>"

definition summary_row :: "nat \<Rightarrow> string \<Rightarrow> int \<Rightarrow> int \<Rightarrow> int \<Rightarrow> source_summary" where
  "summary_row n source start stop k =
     \<lparr>ss_id = n, ss_source = source, ss_summary = Str ''text'', ss_date_range_start = start,
      ss_date_range_end = stop, ss_feedback_count = k, ss_created_at = stop\<rparr>"

definition summaries_world :: world where
  "summaries_world = empty_world\<lparr>source_summaries :=
     [summary_row 1 ''github'' 100 200 4, summary_row 2 ''discord'' 150 300 6,
      summary_row 3 ''github'' 50 120 2, summary_row 4 ''forum'' 250 400 1]\<rparr>"



definition three_items :: "item list" where
  "three_items =
     [\<lparr>content = Str ''Love the new dashboard'', metadata = Obj [(''author'', Str ''kim'')]\<rparr>,
      \<lparr>content = Str ''Sync is slow'', metadata = Undefined\<rparr>,
      \<lparr>content = Str ''Please add dark mode'', metadata = Obj [(''author'', Undefined)]\<rparr>]"

text \<open>The world after one run of the workflow over the three items, and after a run in
  which the model call throws.\<close>

definition discord_world :: world where
  "discord_world = snd (FeedbackProcessingWorkflow_run quiet_env ''discord'' three_items empty_world)"


text \<open>Two stored rows of which the first is already processed.\<close>

definition half_world :: world where
  "half_world = empty_world\<lparr>feedback :=
     [\<lparr>fb_id = 1, fb_source = ''email'', fb_content = Str ''Subject: Hi'', fb_metadata = Json (Obj []),
       fb_created_at = 700, fb_processed = 1\<rparr>,
      \<lparr>fb_id = 2, fb_source = ''email'', fb_content = Str ''Subject: Bye'', fb_metadata = Json (Obj []),
       fb_created_at = 800, fb_processed = 0\<rparr>]\<rparr>"

text \<open>Two unprocessed forum rows and a processed one.\<close>

definition pending_world :: world where
  "pending_world = empty_world\<lparr>feedback :=
     [\<lparr>fb_id = 1, fb_source = ''forum'', fb_content = Str ''Post: A'', fb_metadata = Json (Obj []),
       fb_created_at = 900, fb_processed = 0\<rparr>,
      \<lparr>fb_id = 2, fb_source = ''forum'', fb_content = Str ''Post: B'', fb_metadata = NullCell,
       fb_created_at = 950, fb_processed = 0\<rparr>,
      \<lparr>fb_id = 3, fb_source = ''forum'', fb_content = Str ''Post: C'', fb_metadata = Json (Obj []),
       fb_created_at = 960, fb_processed = 1\<rparr>]\<rparr>"

text \<open>Two source summaries, of 4 and 6 items, inside the last seven days.\<close>

definition two_sources_world :: world where
  "two_sources_world = empty_world\<lparr>source_summaries :=
     [summary_row 1 ''github'' 100 200 4, summary_row 2 ''discord'' 150 300 6]\<rparr>"

section \<open>Properties\<close>

subsection \<open>Sequencing\<close>

lemma andThen_Inr_iff: "andThen m f = Inr y \<longleftrightarrow> (\<exists>x. m = Inr x \<and> f x = Inr y)"
  by (cases m) (simp_all add: andThen_def)


lemma bindIO_Inr: "m w = (Inr a, w') \<Longrightarrow> bindIO m f w = f a w'"
  by (simp add: bindIO_def)

lemma bindIO_Inl: "m w = (Inl x, w') \<Longrightarrow> bindIO m f w = (Inl x, w')"
  by (simp add: bindIO_def)

subsection \<open>The adapters\<close>







lemma parsers_NoParser:
  "parsers key = NoParser \<longleftrightarrow>
     key \<notin> set adapter_names \<and> key \<noteq> ''constructor'' \<and> key \<noteq> ''__proto__''"
  by (simp add: parsers_def adapter_names_def)

text \<open>
  For a source whose lowercased name is neither an adapter's nor one of the two
  inherited names, \<open>parseWebhook\<close> returns the single raw item.
\<close>

lemma parseWebhook_unknown_source:
  assumes "toLowerCase source \<notin> set adapter_names"
    and "toLowerCase source \<noteq> ''constructor''" and "toLowerCase source \<noteq> ''__proto__''"
  shows "parseWebhook source payload = Inr (Items
          [\<lparr>content = (case payload of Str s \<Rightarrow> Str s | _ \<Rightarrow> JSON_stringify payload),
            metadata = Obj [(''raw'', Bool True)]\<rparr>])"
proof -
  have "parsers (toLowerCase source) = NoParser"
    using assms by (simp add: parsers_NoParser)
  then show ?thesis
    by (simp add: parseWebhook_def split: jsval.splits)
qed

text \<open>
  C3. The claim: for every source with no matching named adapter, \<open>parseWebhook\<close>
  never throws and returns exactly one raw item. The source \<open>__proto__\<close> names no
  adapter, yet \<open>parsers['__proto__']\<close> is the inherited \<open>Object.prototype\<close>, which
  is truthy and not callable: the fallback is skipped and the call throws a TypeError.
  For the source \<open>constructor\<close> the parser found is \<open>Object\<close>, and what comes back
  is the payload as an object, not a list of one raw item.
\<close>

theorem parseWebhook_inherited_key:
  "parseWebhook ''__proto__'' (Obj []) = Inl (TypeError ''parser is not a function'')
   \<and> parseWebhook ''constructor'' (Obj []) = Inr (Boxed (Obj []))"
  by (simp add: parseWebhook_def parsers_def toLowerCase_def lower_char_def)






subsection \<open>The store\<close>

text \<open>
  C5. When the statement is not rejected, \<open>getSourceSummaries\<close> returns exactly the
  summaries whose range lies inside the window, each as often as the table holds it, and
  none that starts before the window or ends after it.
\<close>

theorem getSourceSummaries_window:
  assumes "\<not> fails e (length (calls w))"
  shows "\<exists>rows. getSourceSummaries e start stop w
            = (Inr rows, w\<lparr>calls := calls w @ [SelectSourceSummaries start stop]\<rparr>)
          \<and> mset rows = filter_mset (\<lambda>s. start \<le> ss_date_range_start s \<and> ss_date_range_end s \<le> stop)
                           (mset (source_summaries w))
          \<and> set rows = {s \<in> set (source_summaries w).
                           start \<le> ss_date_range_start s \<and> ss_date_range_end s \<le> stop}
          \<and> list_all (\<lambda>s. \<not> ss_date_range_start s < start \<and> \<not> stop < ss_date_range_end s) rows"
  using assms by (auto simp: getSourceSummaries_def list_all_iff)

lemma window_example:
  "getSourceSummaries quiet_env 100 300 summaries_world
     = (Inr [summary_row 2 ''discord'' 150 300 6, summary_row 1 ''github'' 100 200 4],
        summaries_world\<lparr>calls := [SelectSourceSummaries 100 300]\<rparr>)"
  by code_simp

theorem getSourceSummaries_window_witness:
  "\<not> fails quiet_env (length (calls summaries_world))
   \<and> getSourceSummaries quiet_env 100 300 summaries_world
       = (Inr [summary_row 2 ''discord'' 150 300 6, summary_row 1 ''github'' 100 200 4],
          summaries_world\<lparr>calls := [SelectSourceSummaries 100 300]\<rparr>)
   \<and> set [summary_row 2 ''discord'' 150 300 6, summary_row 1 ''github'' 100 200 4]
       = {s \<in> set (source_summaries summaries_world).
            100 \<le> ss_date_range_start s \<and> ss_date_range_end s \<le> 300}"
proof -
  have ok: "\<not> fails quiet_env (length (calls summaries_world))"
    by (simp add: quiet_env_def)
  from getSourceSummaries_window[OF ok, of 100 300] window_example ok
  show ?thesis by auto
qed

text \<open>
  C8, as amended. \<open>markFeedbackProcessed\<close> with an empty list of ids sends no statement,
  leaves the database as it is, raises nothing and returns \<open>undefined\<close>.
\<close>

theorem markFeedbackProcessed_empty:
  "markFeedbackProcessed e [] w = (Inr Undefined, w)"
  by (simp add: markFeedbackProcessed_def)

text \<open>C8 as stated fails: what is returned for the empty list is not the number 0.\<close>

theorem markFeedbackProcessed_empty_not_zero:
  "markFeedbackProcessed quiet_env [] empty_world = (Inr Undefined, empty_world)
   \<and> markFeedbackProcessed quiet_env [] empty_world \<noteq> (Inr (Num 0), empty_world)"
  by (simp add: markFeedbackProcessed_def)

subsection \<open>The store step\<close>

lemma fold_max_ge_acc: "(a::nat) \<le> fold max xs a"
proof (induction xs arbitrary: a)
  case Nil
  then show ?case by simp
next
  case (Cons x xs)
  have "a \<le> max x a" by simp
  also have "\<dots> \<le> fold max xs (max x a)" by (rule Cons.IH)
  finally show ?case by simp
qed

lemma fold_max_ge_elem: "x \<in> set xs \<Longrightarrow> (x::nat) \<le> fold max xs a"
proof (induction xs arbitrary: a)
  case Nil
  then show ?case by simp
next
  case (Cons y ys)
  show ?case
  proof (cases "x = y")
    case True
    have "x \<le> max y a" using True by simp
    also have "\<dots> \<le> fold max ys (max y a)" by (rule fold_max_ge_acc)
    finally show ?thesis by simp
  next
    case False
    with Cons.prems have "x \<in> set ys" by simp
    then show ?thesis using Cons.IH by simp
  qed
qed

lemma next_id_fresh: "x \<in> set ids \<Longrightarrow> x < next_id ids"
  using fold_max_ge_elem[of x ids 0] by (simp add: next_id_def)

lemma js_or_Obj_defined: "js_or m (Obj []) \<noteq> Undefined"
  by (cases m) (simp_all add: js_or_def)

lemma insertFeedback_rejected:
  "fails e (length (calls w)) \<Longrightarrow>
   insertFeedback e source c m w = (Inl (Error ''D1_ERROR''), w\<lparr>calls := calls w @ [Rejected]\<rparr>)"
  by (simp add: insertFeedback_def rejected_def)

lemma insertFeedback_accepted:
  "\<not> fails e (length (calls w)) \<Longrightarrow>
   insertFeedback e source (content it) (js_or (metadata it) (Obj [])) w
     = (Inr (fb_id (new_row e source it w)),
        w\<lparr>feedback := feedback w @ [new_row e source it w],
          calls := calls w @ [InsertFeedback (fb_id (new_row e source it w))]\<rparr>)"
  by (simp add: insertFeedback_def new_row_def Let_def now_def js_or_Obj_defined)

lemma store_items_effect:
  assumes "store_items e source items ids w = (r, w1)"
  shows "\<exists>rows. feedback w1 = feedback w @ rows
           \<and> source_summaries w1 = source_summaries w
           \<and> aggregated_summaries w1 = aggregated_summaries w
           \<and> (\<forall>x\<in>set rows. fb_processed x = 0 \<and> fb_source x = source
                 \<and> (\<forall>y\<in>set (feedback w). fb_id y < fb_id x))
           \<and> (case r of
                 Inr ids' \<Rightarrow> ids' = ids @ map fb_id rows
                    \<and> calls w1 = calls w @ map InsertFeedback (map fb_id rows)
                    \<and> map fb_content rows = map content items
                    \<and> map fb_metadata rows
                        = map (\<lambda>it. Json (json_value (js_or (metadata it) (Obj [])))) items
               | Inl err \<Rightarrow> err = Error ''D1_ERROR'' \<and> length rows < length items
                    \<and> fails e (length (calls w) + length rows)
                    \<and> calls w1 = calls w @ map InsertFeedback (map fb_id rows) @ [Rejected])"
  using assms
proof (induction items arbitrary: ids w)
  case Nil
  then show ?case by (auto simp: returnIO_def)
next
  case (Cons it rest)
  show ?case
  proof (cases "fails e (length (calls w))")
    case True
    with Cons.prems have "r = Inl (Error ''D1_ERROR'')" "w1 = w\<lparr>calls := calls w @ [Rejected]\<rparr>"
      by (simp_all add: bindIO_Inl[OF insertFeedback_rejected])
    with True show ?thesis by (intro exI[of _ "[]"]) simp
  next
    case False
    let ?row = "new_row e source it w"
    let ?w = "w\<lparr>feedback := feedback w @ [?row], calls := calls w @ [InsertFeedback (fb_id ?row)]\<rparr>"
    from Cons.prems False have run: "store_items e source rest (ids @ [fb_id ?row]) ?w = (r, w1)"
      by (simp add: bindIO_Inr[OF insertFeedback_accepted])
    from Cons.IH[OF run] obtain rows where rows:
      "feedback w1 = feedback ?w @ rows"
      "source_summaries w1 = source_summaries ?w"
      "aggregated_summaries w1 = aggregated_summaries ?w"
      "\<forall>x\<in>set rows. fb_processed x = 0 \<and> fb_source x = source
           \<and> (\<forall>y\<in>set (feedback ?w). fb_id y < fb_id x)"
      "case r of
         Inr ids' \<Rightarrow> ids' = (ids @ [fb_id ?row]) @ map fb_id rows
            \<and> calls w1 = calls ?w @ map InsertFeedback (map fb_id rows)
            \<and> map fb_content rows = map content rest
            \<and> map fb_metadata rows
                = map (\<lambda>it. Json (json_value (js_or (metadata it) (Obj [])))) rest
       | Inl err \<Rightarrow> err = Error ''D1_ERROR'' \<and> length rows < length rest
            \<and> fails e (length (calls ?w) + length rows)
            \<and> calls w1 = calls ?w @ map InsertFeedback (map fb_id rows) @ [Rejected]"
      by blast
    have fresh: "\<forall>y\<in>set (feedback w). fb_id y < fb_id ?row"
      by (auto simp: new_row_def intro: next_id_fresh)
    have row: "fb_processed ?row = 0" "fb_source ?row = source" "fb_content ?row = content it"
      "fb_metadata ?row = Json (json_value (js_or (metadata it) (Obj [])))"
      by (simp_all add: new_row_def)
    show ?thesis
      using rows fresh row
      by (intro exI[of _ "?row # rows"]) (auto split: sum.splits)
  qed
qed

subsection \<open>The steps of the workflow\<close>

lemma reload_new_rows:
  assumes "\<forall>x\<in>set rows. fb_processed x = 0 \<and> (\<forall>y\<in>set old. fb_id y < fb_id x)"
  shows "filter (\<lambda>r. fb_id r \<in> set (map fb_id rows) \<and> fb_processed r = 0) (old @ rows) = rows"
proof -
  have "filter (\<lambda>r. fb_id r \<in> set (map fb_id rows) \<and> fb_processed r = 0) old = []"
    using assms by (fastforce simp: filter_empty_conv)
  moreover have "filter (\<lambda>r. fb_id r \<in> set (map fb_id rows) \<and> fb_processed r = 0) rows = rows"
    using assms by (simp add: filter_id_conv)
  ultimately show ?thesis by simp
qed

lemma mark_new_rows:
  assumes "\<forall>x\<in>set rows. \<forall>y\<in>set old. fb_id y < fb_id x"
  shows "map (\<lambda>r. if fb_id r \<in> set (map fb_id rows) then r\<lparr>fb_processed := 1\<rparr> else r) (old @ rows)
           = old @ map (\<lambda>x. x\<lparr>fb_processed := 1\<rparr>) rows"
proof -
  have "map (\<lambda>r. if fb_id r \<in> set (map fb_id rows) then r\<lparr>fb_processed := 1\<rparr> else r) old = old"
    using assms by (intro map_idI) fastforce
  then show ?thesis by simp
qed

lemma math_min_Min: "ts \<noteq> [] \<Longrightarrow> math_min ts = Inr (Min (set ts))"
  by (cases ts) (simp_all add: math_min_def Min.set_eq_fold[symmetric])

lemma math_max_Max: "ts \<noteq> [] \<Longrightarrow> math_max ts = Inr (Max (set ts))"
  by (cases ts) (simp_all add: math_max_def Max.set_eq_fold[symmetric])

lemma selectUnprocessedByIds_cases:
  "selectUnprocessedByIds e ids w =
     (if fails e (length (calls w))
      then (Inl (Error ''D1_ERROR''), w\<lparr>calls := calls w @ [Rejected]\<rparr>)
      else (Inr (filter (\<lambda>r. fb_id r \<in> set ids \<and> fb_processed r = 0) (feedback w)),
            w\<lparr>calls := calls w @ [SelectFeedbackByIds ids]\<rparr>))"
  by (simp add: selectUnprocessedByIds_def rejected_def)

lemma store_summary_cases:
  assumes "rows \<noteq> []"
  shows "store_summary e source summary rows w =
     (if fails e (length (calls w))
      then (Inl (Error ''D1_ERROR''), w\<lparr>calls := calls w @ [Rejected]\<rparr>)
      else (Inr (Min (set (map fb_created_at rows)), Max (set (map fb_created_at rows)),
                 int (length rows)),
            w\<lparr>source_summaries := source_summaries w @
                 [\<lparr>ss_id = next_id (map ss_id (source_summaries w)), ss_source = source,
                   ss_summary = summary,
                   ss_date_range_start = Min (set (map fb_created_at rows)),
                   ss_date_range_end = Max (set (map fb_created_at rows)),
                   ss_feedback_count = int (length rows),
                   ss_created_at = clock e (length (calls w))\<rparr>],
              calls := calls w @ [InsertSourceSummary (next_id (map ss_id (source_summaries w)))]\<rparr>))"
  using assms
  by (simp add: store_summary_def bindIO_def liftE_def math_min_Min math_max_Max
      insertSourceSummary_def rejected_def returnIO_def Let_def now_def)

lemma mark_processed_cases:
  assumes "ids \<noteq> []"
  shows "mark_processed e \<lparr>sf_feedbackIds = ids, sf_count = n\<rparr> w =
     (if fails e (length (calls w))
      then (Inl (Error ''D1_ERROR''), w\<lparr>calls := calls w @ [Rejected]\<rparr>)
      else (Inr (length ids),
            w\<lparr>feedback := map (\<lambda>r. if fb_id r \<in> set ids then r\<lparr>fb_processed := 1\<rparr> else r)
                              (feedback w),
              calls := calls w @ [UpdateProcessed ids]\<rparr>))"
  using assms
  by (simp add: mark_processed_def markFeedbackProcessed_def bindIO_def rejected_def returnIO_def)

subsection \<open>The outcomes of a run\<close>

lemma stored_length: "stored source items old rows \<Longrightarrow> length rows = length items"
  unfolding stored_def using map_eq_imp_length_eq by blast

lemma after_store_outcome:
  fixes e source ids k w r w'
  defines "n \<equiv> length (calls w)"
    and "reloaded \<equiv> filter (\<lambda>x. fb_id x \<in> set ids \<and> fb_processed x = 0) (feedback w)"
  assumes run: "after_store e source \<lparr>sf_feedbackIds = ids, sf_count = k\<rparr> w = (r, w')"
  obtains
    (no_items) "k = 0" "r = Inr NoFeedbackItems" "w' = w"
  | (reload_failed)
      "k \<noteq> 0" "fails e n" "r = Inl (Error ''D1_ERROR'')"
      "feedback w' = feedback w" "source_summaries w' = source_summaries w"
      "aggregated_summaries w' = aggregated_summaries w"
      "calls w' = calls w @ [Rejected]"
  | (nothing_unprocessed)
      "k \<noteq> 0" "\<not> fails e n" "reloaded = []"
      "r = Inr (NoUnprocessedFeedback ids)"
      "feedback w' = feedback w" "source_summaries w' = source_summaries w"
      "aggregated_summaries w' = aggregated_summaries w"
      "calls w' = calls w @ [SelectFeedbackByIds ids]"
  | (summarize_failed) err where
      "k \<noteq> 0" "\<not> fails e n" "reloaded \<noteq> []"
      "generate_summary e reloaded = Inl err" "r = Inl err"
      "feedback w' = feedback w" "source_summaries w' = source_summaries w"
      "aggregated_summaries w' = aggregated_summaries w"
      "calls w' = calls w @ [SelectFeedbackByIds ids]"
  | (persist_failed) summary where
      "k \<noteq> 0" "\<not> fails e n" "reloaded \<noteq> []"
      "generate_summary e reloaded = Inr summary" "fails e (n + 1)"
      "r = Inl (Error ''D1_ERROR'')"
      "feedback w' = feedback w" "source_summaries w' = source_summaries w"
      "aggregated_summaries w' = aggregated_summaries w"
      "calls w' = calls w @ [SelectFeedbackByIds ids, Rejected]"
  | (mark_failed) summary srow where
      "k \<noteq> 0" "\<not> fails e n" "reloaded \<noteq> []"
      "generate_summary e reloaded = Inr summary" "\<not> fails e (n + 1)" "fails e (n + 2)"
      "r = Inl (Error ''D1_ERROR'')"
      "feedback w' = feedback w" "source_summaries w' = source_summaries w @ [srow]"
      "ss_source srow = source" "ss_summary srow = summary"
      "ss_date_range_start srow = Min (set (map fb_created_at reloaded))"
      "ss_date_range_end srow = Max (set (map fb_created_at reloaded))"
      "ss_feedback_count srow = int (length reloaded)"
      "aggregated_summaries w' = aggregated_summaries w"
      "calls w' = calls w @ [SelectFeedbackByIds ids, InsertSourceSummary (ss_id srow), Rejected]"
  | (completed) summary srow where
      "k \<noteq> 0" "\<not> fails e n" "reloaded \<noteq> []"
      "generate_summary e reloaded = Inr summary" "\<not> fails e (n + 1)" "\<not> fails e (n + 2)"
      "r = (case summary of
              Str s \<Rightarrow> Inr (ProcessedFeedback ids
                              (Min (set (map fb_created_at reloaded)),
                               Max (set (map fb_created_at reloaded)), int (length reloaded))
                              (take 200 s @ ''...''))
            | _ \<Rightarrow> Inl (TypeError ''summary.substring is not a function''))"
      "feedback w' = map (\<lambda>x. if fb_id x \<in> set ids then x\<lparr>fb_processed := 1\<rparr> else x) (feedback w)"
      "source_summaries w' = source_summaries w @ [srow]"
      "ss_source srow = source" "ss_summary srow = summary"
      "ss_date_range_start srow = Min (set (map fb_created_at reloaded))"
      "ss_date_range_end srow = Max (set (map fb_created_at reloaded))"
      "ss_feedback_count srow = int (length reloaded)"
      "aggregated_summaries w' = aggregated_summaries w"
      "calls w' = calls w @ [SelectFeedbackByIds ids, InsertSourceSummary (ss_id srow),
                             UpdateProcessed ids]"
proof (cases "k = 0")
  case True
  with run have "r = Inr NoFeedbackItems" "w' = w"
    by (simp_all add: after_store_def returnIO_def)
  with True show ?thesis by (rule no_items)
next
  case count: False
  note unfold = after_store_def fetch_feedback_records_def bindIO_def returnIO_def liftE_def
    selectUnprocessedByIds_cases
  show ?thesis
  proof (cases "fails e n")
    case True
    with run count have "r = Inl (Error ''D1_ERROR'')"
      "feedback w' = feedback w" "source_summaries w' = source_summaries w"
      "aggregated_summaries w' = aggregated_summaries w"
      "calls w' = calls w @ [Rejected]"
      by (auto simp: unfold n_def)
    with count True show ?thesis by (intro reload_failed)
  next
    case ok0: False
    show ?thesis
    proof (cases "reloaded = []")
      case True
      with run count ok0 have "r = Inr (NoUnprocessedFeedback ids)"
        "feedback w' = feedback w" "source_summaries w' = source_summaries w"
        "aggregated_summaries w' = aggregated_summaries w"
        "calls w' = calls w @ [SelectFeedbackByIds ids]"
        by (auto simp: unfold n_def reloaded_def)
      with count ok0 True show ?thesis by (intro nothing_unprocessed)
    next
      case ne: False
      then have ids_ne: "ids \<noteq> []"
        by (auto simp: reloaded_def)
      have rel: "filter (\<lambda>x. fb_id x \<in> set ids \<and> fb_processed x = 0) (feedback w) = reloaded"
        by (simp add: reloaded_def)
      note unfold' = unfold rel store_summary_cases[OF ne] mark_processed_cases[OF ids_ne]
      show ?thesis
      proof (cases "generate_summary e reloaded")
        case (Inl err)
        with run count ok0 ne have "r = Inl err"
          "feedback w' = feedback w" "source_summaries w' = source_summaries w"
          "aggregated_summaries w' = aggregated_summaries w"
          "calls w' = calls w @ [SelectFeedbackByIds ids]"
          by (auto simp: unfold' n_def)
        with count ok0 ne Inl show ?thesis by (intro summarize_failed[of err])
      next
        case summary: (Inr summary)
        let ?srow = "\<lparr>ss_id = next_id (map ss_id (source_summaries w)), ss_source = source,
                 ss_summary = summary,
                 ss_date_range_start = Min (set (map fb_created_at reloaded)),
                 ss_date_range_end = Max (set (map fb_created_at reloaded)),
                 ss_feedback_count = int (length reloaded),
                 ss_created_at = clock e (n + 1)\<rparr>"
        show ?thesis
        proof (cases "fails e (n + 1)")
          case True
          with run count ok0 ne summary have "r = Inl (Error ''D1_ERROR'')"
            "feedback w' = feedback w" "source_summaries w' = source_summaries w"
            "aggregated_summaries w' = aggregated_summaries w"
            "calls w' = calls w @ [SelectFeedbackByIds ids, Rejected]"
            by (auto simp: unfold' n_def)
          with count ok0 ne summary True show ?thesis by (intro persist_failed[of summary])
        next
          case ok1: False
          show ?thesis
          proof (cases "fails e (n + 2)")
            case True
            with run count ok0 ok1 ne summary have "r = Inl (Error ''D1_ERROR'')"
              "feedback w' = feedback w" "source_summaries w' = source_summaries w @ [?srow]"
              "aggregated_summaries w' = aggregated_summaries w"
              "calls w' = calls w @ [SelectFeedbackByIds ids, InsertSourceSummary (ss_id ?srow), Rejected]"
              by (auto simp: unfold' n_def)
            with count ok0 ok1 ne summary True show ?thesis
              by (intro mark_failed[of summary ?srow]) simp_all
          next
            case ok2: False
            with run count ok0 ok1 ne summary
            have "r = (case summary of
                    Str s \<Rightarrow> Inr (ProcessedFeedback ids
                              (Min (set (map fb_created_at reloaded)),
                               Max (set (map fb_created_at reloaded)), int (length reloaded))
                              (take 200 s @ ''...''))
                  | _ \<Rightarrow> Inl (TypeError ''summary.substring is not a function''))"
              "feedback w' = map (\<lambda>x. if fb_id x \<in> set ids then x\<lparr>fb_processed := 1\<rparr> else x) (feedback w)"
              "source_summaries w' = source_summaries w @ [?srow]"
              "aggregated_summaries w' = aggregated_summaries w"
              "calls w' = calls w @ [SelectFeedbackByIds ids, InsertSourceSummary (ss_id ?srow),
                                     UpdateProcessed ids]"
              by (auto simp: unfold' n_def cong: jsval.case_cong)
            with count ok0 ok1 ok2 ne summary show ?thesis
              by (intro completed[of summary ?srow]) simp_all
          qed
        qed
      qed
    qed
  qed
qed

lemma workflow_outcome:
  fixes e source items w r w'
  defines "n \<equiv> length (calls w)"
  assumes run: "FeedbackProcessingWorkflow_run e source items w = (r, w')"
  obtains
    (no_items) "items = []" "r = Inr NoFeedbackItems" "w' = w"
  | (store_failed) rows where
      "r = Inl (Error ''D1_ERROR'')" "length rows < length items"
      "fails e (n + length rows)"
      "list_all (\<lambda>x. fb_processed x = 0) rows"
      "feedback w' = feedback w @ rows"
      "source_summaries w' = source_summaries w"
      "aggregated_summaries w' = aggregated_summaries w"
      "calls w' = calls w @ map InsertFeedback (map fb_id rows) @ [Rejected]"
  | (reload_failed) rows where
      "items \<noteq> []" "stored source items (feedback w) rows"
      "fails e (n + length items)"
      "r = Inl (Error ''D1_ERROR'')"
      "feedback w' = feedback w @ rows"
      "source_summaries w' = source_summaries w"
      "aggregated_summaries w' = aggregated_summaries w"
      "calls w' = calls w @ map InsertFeedback (map fb_id rows) @ [Rejected]"
  | (summarize_failed) rows err where
      "items \<noteq> []" "stored source items (feedback w) rows"
      "generate_summary e rows = Inl err"
      "r = Inl err"
      "feedback w' = feedback w @ rows"
      "source_summaries w' = source_summaries w"
      "aggregated_summaries w' = aggregated_summaries w"
      "calls w' = calls w @ map InsertFeedback (map fb_id rows) @ [SelectFeedbackByIds (map fb_id rows)]"
  | (persist_failed) rows summary where
      "items \<noteq> []" "stored source items (feedback w) rows"
      "generate_summary e rows = Inr summary"
      "fails e (n + length items + 1)"
      "r = Inl (Error ''D1_ERROR'')"
      "feedback w' = feedback w @ rows"
      "source_summaries w' = source_summaries w"
      "aggregated_summaries w' = aggregated_summaries w"
      "calls w' = calls w @ map InsertFeedback (map fb_id rows)
                  @ [SelectFeedbackByIds (map fb_id rows), Rejected]"
  | (mark_failed) rows summary srow where
      "items \<noteq> []" "stored source items (feedback w) rows"
      "generate_summary e rows = Inr summary"
      "\<not> fails e (n + length items + 1)" "fails e (n + length items + 2)"
      "r = Inl (Error ''D1_ERROR'')"
      "feedback w' = feedback w @ rows"
      "source_summaries w' = source_summaries w @ [srow]"
      "ss_source srow = source" "ss_summary srow = summary"
      "ss_date_range_start srow = Min (set (map fb_created_at rows))"
      "ss_date_range_end srow = Max (set (map fb_created_at rows))"
      "ss_feedback_count srow = int (length rows)"
      "aggregated_summaries w' = aggregated_summaries w"
      "calls w' = calls w @ map InsertFeedback (map fb_id rows)
                  @ [SelectFeedbackByIds (map fb_id rows), InsertSourceSummary (ss_id srow), Rejected]"
  | (completed) rows summary srow where
      "items \<noteq> []" "stored source items (feedback w) rows"
      "generate_summary e rows = Inr summary"
      "\<not> fails e (n + length items)" "\<not> fails e (n + length items + 1)"
      "\<not> fails e (n + length items + 2)"
      "r = (case summary of
              Str s \<Rightarrow> Inr (ProcessedFeedback (map fb_id rows)
                              (Min (set (map fb_created_at rows)), Max (set (map fb_created_at rows)),
                               int (length rows))
                              (take 200 s @ ''...''))
            | _ \<Rightarrow> Inl (TypeError ''summary.substring is not a function''))"
      "feedback w' = feedback w @ map (\<lambda>x. x\<lparr>fb_processed := 1\<rparr>) rows"
      "source_summaries w' = source_summaries w @ [srow]"
      "ss_source srow = source" "ss_summary srow = summary"
      "ss_date_range_start srow = Min (set (map fb_created_at rows))"
      "ss_date_range_end srow = Max (set (map fb_created_at rows))"
      "ss_feedback_count srow = int (length rows)"
      "aggregated_summaries w' = aggregated_summaries w"
      "calls w' = calls w @ map InsertFeedback (map fb_id rows)
                  @ [SelectFeedbackByIds (map fb_id rows), InsertSourceSummary (ss_id srow),
                     UpdateProcessed (map fb_id rows)]"
proof (cases "items = []")
  case True
  with run have "r = Inr NoFeedbackItems" "w' = w"
    by (simp_all add: FeedbackProcessingWorkflow_run_def store_feedback_def after_store_def
        bindIO_def returnIO_def)
  with True show ?thesis by (rule no_items)
next
  case nonempty: False
  obtain r1 w1 where st: "store_items e source items [] w = (r1, w1)"
    by (cases "store_items e source items [] w")
  from store_items_effect[OF st] obtain rows where rows:
    "feedback w1 = feedback w @ rows"
    "source_summaries w1 = source_summaries w"
    "aggregated_summaries w1 = aggregated_summaries w"
    "\<forall>x\<in>set rows. fb_processed x = 0 \<and> fb_source x = source
         \<and> (\<forall>y\<in>set (feedback w). fb_id y < fb_id x)"
    "case r1 of
       Inr ids' \<Rightarrow> ids' = [] @ map fb_id rows
          \<and> calls w1 = calls w @ map InsertFeedback (map fb_id rows)
          \<and> map fb_content rows = map content items
          \<and> map fb_metadata rows
              = map (\<lambda>it. Json (json_value (js_or (metadata it) (Obj [])))) items
     | Inl err \<Rightarrow> err = Error ''D1_ERROR'' \<and> length rows < length items
          \<and> fails e (length (calls w) + length rows)
          \<and> calls w1 = calls w @ map InsertFeedback (map fb_id rows) @ [Rejected]"
    by blast
  have unprocessed: "list_all (\<lambda>x. fb_processed x = 0) rows"
    using rows(4) by (simp add: list_all_iff)
  show ?thesis
  proof (cases r1)
    case (Inl err)
    with run st have "r = Inl err" "w' = w1"
      by (simp_all add: FeedbackProcessingWorkflow_run_def store_feedback_def bindIO_def)
    with rows Inl unprocessed show ?thesis
      by (intro store_failed[of rows]) (simp_all add: n_def)
  next
    case (Inr ids)
    with rows(5) have ids: "ids = map fb_id rows"
      and calls1: "calls w1 = calls w @ map InsertFeedback (map fb_id rows)"
      and contents: "map fb_content rows = map content items"
      and metas: "map fb_metadata rows
              = map (\<lambda>it. Json (json_value (js_or (metadata it) (Obj [])))) items"
      by simp_all
    have stored: "stored source items (feedback w) rows"
      using rows(4) contents metas by (simp add: stored_def list_all_iff)
    have len: "length rows = length items" by (rule stored_length[OF stored])
    with nonempty have rows_ne: "rows \<noteq> []" by auto
    have len1: "length (calls w1) = n + length items"
      by (simp add: calls1 n_def len)
    let ?st = "\<lparr>sf_feedbackIds = map fb_id rows, sf_count = length items\<rparr>"
    have "filter (\<lambda>r. fb_id r \<in> set (map fb_id rows) \<and> fb_processed r = 0) (feedback w1) = rows"
      unfolding rows(1) using rows(4) by (intro reload_new_rows) simp
    then have reload: "filter (\<lambda>r. fb_id r \<in> fb_id ` set rows \<and> fb_processed r = 0) (feedback w1) = rows"
      by simp
    have "map (\<lambda>r. if fb_id r \<in> set (map fb_id rows) then r\<lparr>fb_processed := 1\<rparr> else r)
             (feedback w @ rows) = feedback w @ map (\<lambda>x. x\<lparr>fb_processed := 1\<rparr>) rows"
      using rows(4) by (intro mark_new_rows) simp
    then have marked: "map (\<lambda>r. if fb_id r \<in> fb_id ` set rows then r\<lparr>fb_processed := 1\<rparr> else r)
             (feedback w1) = feedback w @ map (\<lambda>x. x\<lparr>fb_processed := 1\<rparr>) rows"
      by (simp add: rows(1))
    from run st Inr ids have cont: "after_store e source ?st w1 = (r, w')"
      by (simp add: FeedbackProcessingWorkflow_run_def store_feedback_def bindIO_def returnIO_def)
    from cont show ?thesis
    proof (cases rule: after_store_outcome)
      case no_items
      with nonempty show ?thesis by simp
    next
      case reload_failed
      with rows calls1 nonempty stored len1 show ?thesis
        by (intro that(3)[of rows]) simp_all
    next
      case nothing_unprocessed
      with reload rows_ne show ?thesis by simp
    next
      case (summarize_failed err)
      with rows calls1 nonempty stored len1 reload show ?thesis
        by (intro that(4)[of rows err]) simp_all
    next
      case (persist_failed summary)
      with rows calls1 nonempty stored len1 reload show ?thesis
        by (intro that(5)[of rows summary]) simp_all
    next
      case (mark_failed summary srow)
      with rows calls1 nonempty stored len1 reload show ?thesis
        by (intro that(6)[of rows summary srow]) simp_all
    next
      case (completed summary srow)
      with rows calls1 nonempty stored len1 reload marked show ?thesis
        by (intro that(7)[of rows summary srow]) (simp_all cong: jsval.case_cong)
    qed
  qed
qed

subsection \<open>What a run adds\<close>

lemma Min_le_Max_list: "xs \<noteq> [] \<Longrightarrow> Min (set xs) \<le> (Max (set xs) :: int)"
proof -
  assume "xs \<noteq> []"
  then obtain x where x: "x \<in> set xs" by (cases xs) auto
  have "Min (set xs) \<le> x" using x by simp
  also have "x \<le> Max (set xs)" using x by simp
  finally show ?thesis .
qed

lemma added_rows_append [simp]: "feedback w' = feedback w @ rows \<Longrightarrow> added_rows w w' = rows"
  by (simp add: added_rows_def)

lemma added_calls_append [simp]: "calls w' = calls w @ cs \<Longrightarrow> added_calls w w' = cs"
  by (simp add: added_calls_def)

lemma stored_unprocessed: "stored source items old rows \<Longrightarrow> list_all (\<lambda>x. fb_processed x = 0) rows"
  by (simp add: stored_def list_all_iff)

lemma stored_contents: "stored source items old rows \<Longrightarrow> map fb_content rows = map content items"
  by (simp add: stored_def)

lemma generate_summary_throws:
  assumes "\<forall>request. \<exists>err. ai e request = Inl err"
  shows "generate_summary e rows \<noteq> Inr summary"
proof (cases "mapE (feedback_text record_metadata) (enumerate 0 rows)")
  case (Inl err)
  then show ?thesis by (simp add: generate_summary_def andThen_def)
next
  case (Inr texts)
  from assms obtain err where "ai e (feedback_request (feedback_prompt (join separator texts))) = Inl err"
    by blast
  with Inr show ?thesis by (simp add: generate_summary_def andThen_def)
qed

subsection \<open>When the model call throws\<close>












subsection \<open>Reruns and the summarize route\<close>

lemma batch_already_processed:
  assumes "list_all (\<lambda>x. fb_id x \<in> set ids \<longrightarrow> fb_processed x \<noteq> 0) (feedback w)"
    and run: "processFeedbackBatch e source ids w = (r, w')"
  shows "r = Inr () \<and> feedback w' = feedback w \<and> source_summaries w' = source_summaries w
       \<and> aggregated_summaries w' = aggregated_summaries w
       \<and> list_all (\<lambda>c. c = SelectFeedbackByIds ids \<or> c = Rejected) (added_calls w w')
       \<and> length (added_calls w w') \<le> 1"
proof -
  have none: "filter (\<lambda>x. fb_id x \<in> set ids \<and> fb_processed x = 0) (feedback w) = []"
    using assms(1) by (auto simp: filter_empty_conv list_all_iff)
  from run show ?thesis
    by (auto simp: processFeedbackBatch_def selectUnprocessedByIds_cases bindIO_def returnIO_def
        none added_calls_def split: if_splits)
qed

lemma workflow_keeps_rows:
  assumes "FeedbackProcessingWorkflow_run e source items w = (r, w')"
  shows "take (length (feedback w)) (feedback w') = feedback w"
  using assms by (cases rule: workflow_outcome) simp_all

lemma workflow_returns:
  assumes "FeedbackProcessingWorkflow_run e source items w = (Inr res, w')" and "items \<noteq> []"
  shows "(\<exists>s. source_summaries w' = source_summaries w @ [s])
       \<and> length (added_rows w w') = length items
       \<and> list_all (\<lambda>x. fb_processed x = 1) (added_rows w w')"
  using assms(1)
proof (cases rule: workflow_outcome)
  case no_items
  with assms(2) show ?thesis by simp
next
  case (completed rows summary srow)
  with stored_length[OF completed(2)] show ?thesis
    by (simp add: list_all_iff)
qed simp_all

lemma getUnprocessedFeedback_accepted:
  "\<not> fails e (length (calls w)) \<Longrightarrow>
   getUnprocessedFeedback e source limit w
     = (Inr (take limit (sort_key fb_created_at
               (filter (\<lambda>r. fb_source r = source \<and> fb_processed r = 0) (feedback w)))),
        w\<lparr>calls := calls w @ [SelectUnprocessed source limit]\<rparr>)"
  by (simp add: getUnprocessedFeedback_def)

lemma matched_in_table:
  "x \<in> set (matched_feedback e w source days) \<Longrightarrow> x \<in> set (feedback w) \<and> fb_processed x = 0 \<and> fb_source x = source"
proof -
  assume "x \<in> set (matched_feedback e w source days)"
  then have "x \<in> set (take 100 (sort_key fb_created_at
              (filter (\<lambda>r. fb_source r = source \<and> fb_processed r = 0) (feedback w))))"
    by (auto simp: matched_feedback_def recent_feedback_def split: option.splits)
  then have "x \<in> set (sort_key fb_created_at
              (filter (\<lambda>r. fb_source r = source \<and> fb_processed r = 0) (feedback w)))"
    by (rule in_set_takeD)
  then show ?thesis by simp
qed

lemma rewrap_contents:
  "mapE rewrap rows = Inr params \<Longrightarrow> map content params = map fb_content rows"
proof (induction rows arbitrary: params)
  case Nil
  then show ?case by simp
next
  case (Cons x rows)
  from Cons.prems obtain it rest where it: "rewrap x = Inr it"
    and rest: "mapE rewrap rows = Inr rest" and params: "params = it # rest"
    by (auto simp: andThen_Inr_iff)
  from it have "content it = fb_content x"
    by (auto simp: rewrap_def andThen_Inr_iff)
  with Cons.IH[OF rest] params show ?case by simp
qed

lemma call_binding_run:
  "call_binding binding ''run'' params w
     = (Inl (TypeError (''env.'' @ binding @ ''.run is not a function'')), w)"
  by (simp add: call_binding_def workflow_members_def liftE_def)

lemma summarize_route_run:
  assumes sel: "\<not> fails e (length (calls w))"
    and ne: "matched_feedback e w source days \<noteq> []"
    and params: "mapE rewrap (matched_feedback e w source days) = Inr params"
  shows "summarize_route e source days w
     = (Inr (ErrorResponse ''env.FEEDBACK_WORKFLOW.run is not a function''),
        w\<lparr>calls := calls w @ [SelectUnprocessed source 100]\<rparr>)"
  using ne params
  by (simp add: summarize_route_def bindIO_def getUnprocessedFeedback_accepted[OF sel]
      matched_feedback_def[symmetric] liftE_def call_binding_run Let_def)

text \<open>
  Whatever the request and the store, the handler writes to no table and never answers
  that a workflow started.
\<close>

lemma summarize_route_tables:
  "feedback (snd (summarize_route e source days w)) = feedback w
   \<and> source_summaries (snd (summarize_route e source days w)) = source_summaries w
   \<and> aggregated_summaries (snd (summarize_route e source days w)) = aggregated_summaries w
   \<and> fst (summarize_route e source days w) \<noteq> Inr (WorkflowStarted src n)"
  by (auto simp: summarize_route_def bindIO_def getUnprocessedFeedback_def rejected_def
      liftE_def call_binding_run returnIO_def Let_def split: sum.splits prod.splits if_splits)

subsection \<open>Aggregation\<close>

lemma after_store_processed_ids:
  assumes "list_all (\<lambda>x. fb_id x \<in> set ids \<longrightarrow> fb_processed x \<noteq> 0) (feedback w)"
    and "after_store e source \<lparr>sf_feedbackIds = ids, sf_count = k\<rparr> w = (r, w')"
  shows "feedback w' = feedback w \<and> source_summaries w' = source_summaries w
       \<and> aggregated_summaries w' = aggregated_summaries w
       \<and> (r = Inr NoFeedbackItems \<or> r = Inr (NoUnprocessedFeedback ids) \<or> r = Inl (Error ''D1_ERROR''))
       \<and> list_all (\<lambda>c. c = SelectFeedbackByIds ids \<or> c = Rejected) (added_calls w w')"
proof -
  have none: "filter (\<lambda>x. fb_id x \<in> set ids \<and> fb_processed x = 0) (feedback w) = []"
    using assms(1) by (auto simp: filter_empty_conv list_all_iff)
  from assms(2) show ?thesis
    by (cases rule: after_store_outcome) (simp_all add: none added_calls_def)
qed

lemma after_store_returns_processed:
  assumes "after_store e source \<lparr>sf_feedbackIds = ids, sf_count = k\<rparr> w = (Inr res, w')" and "k \<noteq> 0"
  shows "list_all (\<lambda>x. fb_id x \<in> set ids \<longrightarrow> fb_processed x \<noteq> 0) (feedback w')"
  using assms(1)
proof (cases rule: after_store_outcome)
  case no_items
  with assms(2) show ?thesis by simp
next
  case nothing_unprocessed
  then show ?thesis by (auto simp: filter_empty_conv list_all_iff)
next
  case (completed summary srow)
  then show ?thesis by (auto simp: list_all_iff)
qed simp_all

lemma after_store_marks_stored_ids:
  assumes "after_store e source \<lparr>sf_feedbackIds = ids, sf_count = k\<rparr> w = (r, w')"
  shows "list_all (\<lambda>c. is_mark c \<longrightarrow> c = UpdateProcessed ids) (added_calls w w')"
  using assms by (cases rule: after_store_outcome) (simp_all add: added_calls_def)

lemma workflow_without_faults:
  assumes ok: "\<forall>k. \<not> fails e k" and "items \<noteq> []"
    and run: "FeedbackProcessingWorkflow_run e source items w = (r, w')"
  shows "map fb_content (added_rows w w') = map content items
       \<and> list_all (\<lambda>x. fb_source x = source) (added_rows w w')
       \<and> ((list_all (\<lambda>x. fb_processed x = 1) (added_rows w w')
             \<and> (\<exists>s. source_summaries w' = source_summaries w @ [s]))
           \<or> (list_all (\<lambda>x. fb_processed x = 0) (added_rows w w')
             \<and> source_summaries w' = source_summaries w))"
  using run
proof (cases rule: workflow_outcome)
  case no_items
  with assms(2) show ?thesis by simp
next
  case (summarize_failed rows err)
  then show ?thesis by (simp add: stored_def list_all_iff)
next
  case (completed rows summary srow)
  then show ?thesis by (simp add: stored_def list_all_iff o_def)
qed (use ok in simp_all)

lemma getSourceSummaries_accepted:
  "\<not> fails e (length (calls w)) \<Longrightarrow>
   getSourceSummaries e start stop w
     = (Inr (sort_key (\<lambda>s. - ss_created_at s)
               (filter (\<lambda>s. start \<le> ss_date_range_start s \<and> ss_date_range_end s \<le> stop)
                  (source_summaries w))),
        w\<lparr>calls := calls w @ [SelectSourceSummaries start stop]\<rparr>)"
  by (simp add: getSourceSummaries_def)

lemma insertAggregatedSummary_accepted:
  "\<not> fails e (length (calls w)) \<Longrightarrow>
   insertAggregatedSummary e summary start stop sc tot w
     = (Inr (next_id (map ag_id (aggregated_summaries w))),
        w\<lparr>aggregated_summaries := aggregated_summaries w @
             [\<lparr>ag_id = next_id (map ag_id (aggregated_summaries w)), ag_summary = summary,
               ag_date_range_start = start, ag_date_range_end = stop,
               ag_source_count = sc, ag_total_feedback_count = tot,
               ag_created_at = clock e (length (calls w))\<rparr>],
          calls := calls w @ [InsertAggregatedSummary (next_id (map ag_id (aggregated_summaries w)))]\<rparr>)"
  by (simp add: insertAggregatedSummary_def Let_def now_def)

lemma fold_add_count:
  "fold (\<lambda>s sum. sum + ss_feedback_count s) (xs :: source_summary list) a
     = a + sum_list (map ss_feedback_count xs)"
  by (induction xs arbitrary: a) simp_all

lemma totalFeedbackCount_sum:
  "totalFeedbackCount summaries = sum_list (map ss_feedback_count summaries)"
  by (simp add: totalFeedbackCount_def fold_add_count)

lemma sourceCount_card:
  "sourceCount summaries = int (card (ss_source ` set summaries))"
  by (simp add: sourceCount_def length_remdups_card_conv)

lemma aggregateSummaries_persists:
  assumes "\<not> fails e (length (calls w))" and "\<not> fails e (Suc (length (calls w)))"
    and "summaries = sort_key (\<lambda>s. - ss_created_at s)
           (filter (\<lambda>s. now e w - days * 24 * 60 * 60 \<le> ss_date_range_start s
                        \<and> ss_date_range_end s \<le> now e w) (source_summaries w))"
    and "summaries \<noteq> []"
  shows "\<exists>row. aggregated_summaries (snd (aggregateSummaries e days w)) = aggregated_summaries w @ [row]
           \<and> aggregates summaries (now e w - days * 24 * 60 * 60) (now e w) row"
  using assms
  by (simp add: aggregateSummaries_def Let_def bindIO_def getSourceSummaries_accepted
      insertAggregatedSummary_accepted returnIO_def aggregates_def totalFeedbackCount_sum
      sourceCount_card)

lemma AggregationWorkflow_persists:
  assumes "\<not> fails e (length (calls w))" and "\<not> fails e (Suc (length (calls w)))"
    and "summaries = sort_key (\<lambda>s. - ss_created_at s)
           (filter (\<lambda>s. now e w - days * 24 * 60 * 60 \<le> ss_date_range_start s
                        \<and> ss_date_range_end s \<le> now e w) (source_summaries w))"
    and "summaries \<noteq> []"
    and "generate_aggregated_summary e summaries = Inr text"
  shows "\<exists>row. aggregated_summaries (snd (AggregationWorkflow_run e days w)) = aggregated_summaries w @ [row]
           \<and> aggregates summaries (now e w - days * 24 * 60 * 60) (now e w) row
           \<and> ag_summary row = text"
  using assms
  by (simp add: AggregationWorkflow_run_def Let_def bindIO_def getSourceSummaries_accepted
      insertAggregatedSummary_accepted returnIO_def liftE_def aggregates_def totalFeedbackCount_sum
      sourceCount_card)

subsection \<open>A failing model call\<close>




lemma quiet_env_accepts: "\<forall>k. \<not> fails quiet_env k"
  by (simp add: quiet_env_def)




subsection \<open>Reruns and the order of the steps\<close>

text \<open>
  C2. When every record with one of the stored ids is already processed, the workflow
  after its store step (the early exit and steps 2 to 5, entered with those ids) reloads
  nothing and ends as a no-op: no SourceSummary is added and no row changes; at most the
  reload statement is sent. \<open>processFeedbackBatch\<close> over those ids does the same.
\<close>

theorem rerun_with_processed_ids:
  assumes "list_all (\<lambda>x. fb_id x \<in> set ids \<longrightarrow> fb_processed x \<noteq> 0) (feedback w)"
    and "after_store e source \<lparr>sf_feedbackIds = ids, sf_count = k\<rparr> w = (r, w')"
    and "processFeedbackBatch e source ids w = (r2, w2)"
  shows "source_summaries w' = source_summaries w \<and> feedback w' = feedback w
       \<and> (r = Inr NoFeedbackItems \<or> r = Inr (NoUnprocessedFeedback ids) \<or> r = Inl (Error ''D1_ERROR''))
       \<and> list_all (\<lambda>c. c = SelectFeedbackByIds ids \<or> c = Rejected) (added_calls w w')
       \<and> source_summaries w2 = source_summaries w \<and> feedback w2 = feedback w \<and> r2 = Inr ()"
  using after_store_processed_ids[OF assms(1,2)] batch_already_processed[OF assms(1,3)]
  by simp

lemma discord_world_facts:
  "map fb_id (feedback discord_world) = [1, 2, 3]
   \<and> map fb_processed (feedback discord_world) = [1, 1, 1]
   \<and> map ss_feedback_count (source_summaries discord_world) = [3]
   \<and> list_all (\<lambda>x. fb_id x \<in> set [1, 2, 3] \<longrightarrow> fb_processed x \<noteq> 0) (feedback discord_world)"
  by code_simp

lemma discord_world_first_run:
  "FeedbackProcessingWorkflow_run quiet_env ''discord'' three_items empty_world
     = (Inr (ProcessedFeedback [1, 2, 3] (1000, 1002, 3) ''Users want dark mode....''), discord_world)"
  by code_simp

lemma discord_world_rerun:
  "fst (after_store quiet_env ''discord'' \<lparr>sf_feedbackIds = [1, 2, 3], sf_count = 3\<rparr> discord_world)
     = Inr (NoUnprocessedFeedback [1, 2, 3])"
  by code_simp

theorem rerun_with_processed_ids_witness:
  "map fb_id (feedback discord_world) = [1, 2, 3]
   \<and> map fb_processed (feedback discord_world) = [1, 1, 1]
   \<and> fst (after_store quiet_env ''discord'' \<lparr>sf_feedbackIds = [1, 2, 3], sf_count = 3\<rparr> discord_world)
       = Inr (NoUnprocessedFeedback [1, 2, 3])
   \<and> source_summaries (snd (after_store quiet_env ''discord''
         \<lparr>sf_feedbackIds = [1, 2, 3], sf_count = 3\<rparr> discord_world)) = source_summaries discord_world
   \<and> feedback (snd (after_store quiet_env ''discord''
         \<lparr>sf_feedbackIds = [1, 2, 3], sf_count = 3\<rparr> discord_world)) = feedback discord_world
   \<and> source_summaries (snd (processFeedbackBatch quiet_env ''discord'' [1, 2, 3] discord_world))
       = source_summaries discord_world
   \<and> feedback (snd (processFeedbackBatch quiet_env ''discord'' [1, 2, 3] discord_world))
       = feedback discord_world"
proof -
  have processed: "list_all (\<lambda>x. fb_id x \<in> set [1, 2, 3] \<longrightarrow> fb_processed x \<noteq> 0) (feedback discord_world)"
    using discord_world_facts by blast
  let ?again = "after_store quiet_env ''discord'' \<lparr>sf_feedbackIds = [1, 2, 3], sf_count = 3\<rparr> discord_world"
  let ?batch = "processFeedbackBatch quiet_env ''discord'' [1, 2, 3] discord_world"
  have again: "?again = (fst ?again, snd ?again)" by simp
  have batch: "?batch = (fst ?batch, snd ?batch)" by simp
  from rerun_with_processed_ids[OF processed again batch]
    discord_world_facts discord_world_rerun
  show ?thesis by simp
qed

text \<open>
  C6. In every run the statements are sent in the order of the steps: if the run marks
  anything, its new statements are the inserts of the feedback rows, the reload, the
  insert of the SourceSummary and then one UPDATE over all inserted ids, and the summary
  is in the table; otherwise no UPDATE was sent and every inserted row is still
  unprocessed. Rows that existed before are never changed. When the model call throws
  (the summarize step fails) or the statement of the persist step is rejected, no
  SourceSummary is added and no record is marked. Entered with stored ids of which some
  are already processed, the steps after the store step mark the stored ids, not the
  reloaded subset.
\<close>

theorem summary_stored_before_mark:
  assumes "FeedbackProcessingWorkflow_run e source items w = (r, w')"
    and "after_store e1 source1 \<lparr>sf_feedbackIds = ids, sf_count = k\<rparr> v = (r1, v')"
  shows "take (length (feedback w)) (feedback w') = feedback w
       \<and> ((\<exists>s. source_summaries w' = source_summaries w @ [s]
              \<and> added_calls w w' = map InsertFeedback (map fb_id (added_rows w w'))
                   @ [SelectFeedbackByIds (map fb_id (added_rows w w')),
                      InsertSourceSummary (ss_id s),
                      UpdateProcessed (map fb_id (added_rows w w'))]
              \<and> length (added_rows w w') = length items
              \<and> list_all (\<lambda>x. fb_processed x = 1) (added_rows w w'))
          \<or> (list_all (\<lambda>c. \<not> is_mark c) (added_calls w w')
              \<and> list_all (\<lambda>x. fb_processed x = 0) (added_rows w w')))
       \<and> ((\<forall>request. \<exists>err. ai e request = Inl err)
            \<longrightarrow> source_summaries w' = source_summaries w
                \<and> list_all (\<lambda>x. fb_processed x = 0) (added_rows w w'))
       \<and> (fails e (length (calls w) + length items + 1)
            \<longrightarrow> source_summaries w' = source_summaries w
                \<and> list_all (\<lambda>x. fb_processed x = 0) (added_rows w w'))
       \<and> list_all (\<lambda>c. is_mark c \<longrightarrow> c = UpdateProcessed ids) (added_calls v v')"
proof -
  have marks: "list_all (\<lambda>c. is_mark c \<longrightarrow> c = UpdateProcessed ids) (added_calls v v')"
    by (rule after_store_marks_stored_ids[OF assms(2)])
  have "take (length (feedback w)) (feedback w') = feedback w
       \<and> ((\<exists>s. source_summaries w' = source_summaries w @ [s]
              \<and> added_calls w w' = map InsertFeedback (map fb_id (added_rows w w'))
                   @ [SelectFeedbackByIds (map fb_id (added_rows w w')),
                      InsertSourceSummary (ss_id s),
                      UpdateProcessed (map fb_id (added_rows w w'))]
              \<and> length (added_rows w w') = length items
              \<and> list_all (\<lambda>x. fb_processed x = 1) (added_rows w w'))
          \<or> (list_all (\<lambda>c. \<not> is_mark c) (added_calls w w')
              \<and> list_all (\<lambda>x. fb_processed x = 0) (added_rows w w')))
       \<and> ((\<forall>request. \<exists>err. ai e request = Inl err)
            \<longrightarrow> source_summaries w' = source_summaries w
                \<and> list_all (\<lambda>x. fb_processed x = 0) (added_rows w w'))
       \<and> (fails e (length (calls w) + length items + 1)
            \<longrightarrow> source_summaries w' = source_summaries w
                \<and> list_all (\<lambda>x. fb_processed x = 0) (added_rows w w'))"
    using assms(1)
  proof (cases rule: workflow_outcome)
    case no_items
    then show ?thesis by (simp add: added_rows_def added_calls_def)
  next
    case (store_failed rows)
    then show ?thesis by (simp add: list_all_iff)
  next
    case (reload_failed rows)
    with stored_unprocessed[OF reload_failed(2)] show ?thesis by (simp add: list_all_iff)
  next
    case (summarize_failed rows err)
    with stored_unprocessed[OF summarize_failed(2)] show ?thesis by (simp add: list_all_iff)
  next
    case (persist_failed rows summary)
    with stored_unprocessed[OF persist_failed(2)] show ?thesis by (simp add: list_all_iff)
  next
    case (mark_failed rows summary srow)
    with stored_unprocessed[OF mark_failed(2)] generate_summary_throws[of e rows summary]
    show ?thesis by (auto simp: list_all_iff)
  next
    case (completed rows summary srow)
    with stored_length[OF completed(2)] generate_summary_throws[of e rows summary]
    show ?thesis by (auto simp: list_all_iff o_def)
  qed
  with marks show ?thesis by blast
qed

lemma half_world_run:
  "added_calls half_world (snd (after_store quiet_env ''email''
       \<lparr>sf_feedbackIds = [1, 2], sf_count = 2\<rparr> half_world))
     = [SelectFeedbackByIds [1, 2], InsertSourceSummary 1, UpdateProcessed [1, 2]]
   \<and> map ss_feedback_count (source_summaries (snd (after_store quiet_env ''email''
       \<lparr>sf_feedbackIds = [1, 2], sf_count = 2\<rparr> half_world))) = [1]"
  by code_simp

lemma discord_world_calls:
  "added_calls empty_world discord_world
     = [InsertFeedback 1, InsertFeedback 2, InsertFeedback 3, SelectFeedbackByIds [1, 2, 3],
        InsertSourceSummary 1, UpdateProcessed [1, 2, 3]]
   \<and> map ss_id (source_summaries discord_world) = [1]
   \<and> map fb_processed (added_rows empty_world discord_world) = [1, 1, 1]"
  by code_simp

theorem summary_stored_before_mark_witness:
  "FeedbackProcessingWorkflow_run quiet_env ''discord'' three_items empty_world
     = (Inr (ProcessedFeedback [1, 2, 3] (1000, 1002, 3) ''Users want dark mode....''), discord_world)
   \<and> added_calls empty_world discord_world
       = [InsertFeedback 1, InsertFeedback 2, InsertFeedback 3, SelectFeedbackByIds [1, 2, 3],
          InsertSourceSummary 1, UpdateProcessed [1, 2, 3]]
   \<and> map ss_id (source_summaries discord_world) = [1]
   \<and> map fb_processed (added_rows empty_world discord_world) = [1, 1, 1]
   \<and> added_calls half_world (snd (after_store quiet_env ''email''
         \<lparr>sf_feedbackIds = [1, 2], sf_count = 2\<rparr> half_world))
       = [SelectFeedbackByIds [1, 2], InsertSourceSummary 1, UpdateProcessed [1, 2]]
   \<and> map ss_feedback_count (source_summaries (snd (after_store quiet_env ''email''
         \<lparr>sf_feedbackIds = [1, 2], sf_count = 2\<rparr> half_world))) = [1]"
proof -
  let ?half = "after_store quiet_env ''email'' \<lparr>sf_feedbackIds = [1, 2], sf_count = 2\<rparr> half_world"
  have half: "?half = (fst ?half, snd ?half)" by simp
  from summary_stored_before_mark[OF discord_world_first_run half]
    discord_world_first_run discord_world_calls half_world_run
  show ?thesis by simp
qed

subsection \<open>The summaries a run writes\<close>

lemma after_store_summary:
  fixes ids v
  defines "reloaded \<equiv> filter (\<lambda>x. fb_id x \<in> set ids \<and> fb_processed x = 0) (feedback v)"
  assumes "after_store e source \<lparr>sf_feedbackIds = ids, sf_count = k\<rparr> v = (r, v')"
  shows "source_summaries v' = source_summaries v
       \<or> (\<exists>s. source_summaries v' = source_summaries v @ [s]
             \<and> reloaded \<noteq> []
             \<and> ss_date_range_start s = Min (set (map fb_created_at reloaded))
             \<and> ss_date_range_end s = Max (set (map fb_created_at reloaded))
             \<and> ss_feedback_count s = int (length reloaded)
             \<and> ss_date_range_start s \<le> ss_date_range_end s
             \<and> 1 \<le> ss_feedback_count s)"
  using assms(2)
proof (cases rule: after_store_outcome)
  case (mark_failed summary srow)
  have "Min (set (map fb_created_at reloaded)) \<le> Max (set (map fb_created_at reloaded))"
    using mark_failed(3) by (intro Min_le_Max_list) (simp add: reloaded_def)
  with mark_failed show ?thesis
    by (auto simp: reloaded_def Suc_le_eq)
next
  case (completed summary srow)
  have "Min (set (map fb_created_at reloaded)) \<le> Max (set (map fb_created_at reloaded))"
    using completed(3) by (intro Min_le_Max_list) (simp add: reloaded_def)
  with completed show ?thesis
    by (auto simp: reloaded_def Suc_le_eq)
qed simp_all

lemma workflow_summary:
  assumes "FeedbackProcessingWorkflow_run e source items w = (r, w')"
  shows "(items = [] \<longrightarrow> source_summaries w' = source_summaries w)
       \<and> (source_summaries w' = source_summaries w
          \<or> (\<exists>s. source_summaries w' = source_summaries w @ [s]
               \<and> added_rows w w' \<noteq> []
               \<and> map fb_content (added_rows w w') = map content items
               \<and> ss_date_range_start s = Min (set (map fb_created_at (added_rows w w')))
               \<and> ss_date_range_end s = Max (set (map fb_created_at (added_rows w w')))
               \<and> ss_feedback_count s = int (length items)
               \<and> ss_date_range_start s \<le> ss_date_range_end s
               \<and> 1 \<le> ss_feedback_count s))"
  using assms
proof (cases rule: workflow_outcome)
  case (mark_failed rows summary srow)
  have len: "length rows = length items" by (rule stored_length[OF mark_failed(2)])
  with mark_failed(1) have ne: "rows \<noteq> []" by auto
  have "Min (set (map fb_created_at rows)) \<le> Max (set (map fb_created_at rows))"
    using ne by (intro Min_le_Max_list) simp
  with mark_failed len ne stored_contents[OF mark_failed(2)] show ?thesis
    by (auto simp: Suc_le_eq)
next
  case (completed rows summary srow)
  have len: "length rows = length items" by (rule stored_length[OF completed(2)])
  with completed(1) have ne: "rows \<noteq> []" by auto
  have "Min (set (map fb_created_at rows)) \<le> Max (set (map fb_created_at rows))"
    using ne by (intro Min_le_Max_list) simp
  with completed len ne stored_contents[OF completed(2)] show ?thesis
    by (auto simp: Suc_le_eq o_def)
qed auto

text \<open>
  C9. A run adds at most one SourceSummary. The one it adds covers the rows the run
  inserted, one per item: its date range is the minimum and the maximum of their
  \<open>created_at\<close>, so the start is not after the end, and its count is the number of
  items, at least 1. No SourceSummary is added for an empty list of items. Entered with
  any stored ids, the steps after the store step add a SourceSummary only over a
  non-empty reloaded batch, with the minimum and maximum \<open>created_at\<close> of the batch and
  its size.
\<close>

theorem source_summary_invariant:
  assumes "FeedbackProcessingWorkflow_run e source items w = (r, w')"
    and "after_store e1 source1 \<lparr>sf_feedbackIds = ids, sf_count = k\<rparr> v = (r1, v')"
  shows "(items = [] \<longrightarrow> source_summaries w' = source_summaries w)
       \<and> (source_summaries w' = source_summaries w
          \<or> (\<exists>s. source_summaries w' = source_summaries w @ [s]
               \<and> added_rows w w' \<noteq> []
               \<and> map fb_content (added_rows w w') = map content items
               \<and> ss_date_range_start s = Min (set (map fb_created_at (added_rows w w')))
               \<and> ss_date_range_end s = Max (set (map fb_created_at (added_rows w w')))
               \<and> ss_feedback_count s = int (length items)
               \<and> ss_date_range_start s \<le> ss_date_range_end s
               \<and> 1 \<le> ss_feedback_count s))
       \<and> (source_summaries v' = source_summaries v
          \<or> (\<exists>s. source_summaries v' = source_summaries v @ [s]
               \<and> filter (\<lambda>x. fb_id x \<in> set ids \<and> fb_processed x = 0) (feedback v) \<noteq> []
               \<and> ss_date_range_start s = Min (set (map fb_created_at
                     (filter (\<lambda>x. fb_id x \<in> set ids \<and> fb_processed x = 0) (feedback v))))
               \<and> ss_date_range_end s = Max (set (map fb_created_at
                     (filter (\<lambda>x. fb_id x \<in> set ids \<and> fb_processed x = 0) (feedback v))))
               \<and> ss_feedback_count s = int (length
                     (filter (\<lambda>x. fb_id x \<in> set ids \<and> fb_processed x = 0) (feedback v)))
               \<and> ss_date_range_start s \<le> ss_date_range_end s
               \<and> 1 \<le> ss_feedback_count s))"
  using workflow_summary[OF assms(1)] after_store_summary[OF assms(2)]
  by blast

lemma discord_world_summary:
  "source_summaries discord_world
     = [\<lparr>ss_id = 1, ss_source = ''discord'', ss_summary = Str ''Users want dark mode.'',
         ss_date_range_start = 1000, ss_date_range_end = 1002, ss_feedback_count = 3,
         ss_created_at = 1004\<rparr>]
   \<and> map fb_created_at (added_rows empty_world discord_world) = [1000, 1001, 1002]"
  by code_simp

lemma half_world_summary:
  "source_summaries (snd (after_store quiet_env ''email''
       \<lparr>sf_feedbackIds = [1, 2], sf_count = 2\<rparr> half_world))
     = [\<lparr>ss_id = 1, ss_source = ''email'', ss_summary = Str ''Users want dark mode.'',
         ss_date_range_start = 800, ss_date_range_end = 800, ss_feedback_count = 1,
         ss_created_at = 1001\<rparr>]"
  by code_simp

theorem source_summary_invariant_witness:
  "FeedbackProcessingWorkflow_run quiet_env ''discord'' three_items empty_world
     = (Inr (ProcessedFeedback [1, 2, 3] (1000, 1002, 3) ''Users want dark mode....''), discord_world)
   \<and> source_summaries discord_world
       = [\<lparr>ss_id = 1, ss_source = ''discord'', ss_summary = Str ''Users want dark mode.'',
           ss_date_range_start = 1000, ss_date_range_end = 1002, ss_feedback_count = 3,
           ss_created_at = 1004\<rparr>]
   \<and> map fb_created_at (added_rows empty_world discord_world) = [1000, 1001, 1002]
   \<and> source_summaries (snd (after_store quiet_env ''email''
         \<lparr>sf_feedbackIds = [1, 2], sf_count = 2\<rparr> half_world))
       = [\<lparr>ss_id = 1, ss_source = ''email'', ss_summary = Str ''Users want dark mode.'',
           ss_date_range_start = 800, ss_date_range_end = 800, ss_feedback_count = 1,
           ss_created_at = 1001\<rparr>]"
proof -
  let ?half = "after_store quiet_env ''email'' \<lparr>sf_feedbackIds = [1, 2], sf_count = 2\<rparr> half_world"
  have half: "?half = (fst ?half, snd ?half)" by simp
  from source_summary_invariant[OF discord_world_first_run half]
    discord_world_first_run discord_world_summary half_world_summary
  show ?thesis by simp
qed

subsection \<open>The summarize route and the aggregation\<close>

text \<open>
  The workflow, run on the parameters the handler builds from the rows it fetched: the
  rows that were there stay as they were, so the fetched ones are still unprocessed, and
  when no statement is rejected there is one new row per fetched row, with its content
  and the source of the request; the new rows are all marked and one summary is added,
  or (the summarize step failed) none is marked and no summary is added.
\<close>

lemma workflow_on_fetched_rows:
  assumes params: "mapE rewrap (matched_feedback e w source days) = Inr params"
    and ne: "matched_feedback e w source days \<noteq> []"
    and run: "FeedbackProcessingWorkflow_run e source params w = (r, w')"
  shows "take (length (feedback w)) (feedback w') = feedback w
       \<and> list_all (\<lambda>x. x \<in> set (feedback w') \<and> fb_processed x = 0)
            (matched_feedback e w source days)
       \<and> ((\<forall>k. \<not> fails e k) \<longrightarrow>
             map fb_content (added_rows w w') = map fb_content (matched_feedback e w source days)
             \<and> list_all (\<lambda>x. fb_source x = source) (added_rows w w')
             \<and> ((list_all (\<lambda>x. fb_processed x = 1) (added_rows w w')
                   \<and> (\<exists>s. source_summaries w' = source_summaries w @ [s]))
                 \<or> (list_all (\<lambda>x. fb_processed x = 0) (added_rows w w')
                   \<and> source_summaries w' = source_summaries w)))"
proof -
  let ?matched = "matched_feedback e w source days"
  from rewrap_contents[OF params] have contents: "map content params = map fb_content ?matched" .
  with ne have params_ne: "params \<noteq> []" by auto
  have keep: "take (length (feedback w)) (feedback w') = feedback w"
    using workflow_keeps_rows[OF run] .
  have old: "list_all (\<lambda>x. x \<in> set (feedback w') \<and> fb_processed x = 0) ?matched"
  proof -
    have "x \<in> set (feedback w') \<and> fb_processed x = 0" if "x \<in> set ?matched" for x
    proof -
      from matched_in_table[OF that] have "x \<in> set (feedback w)" "fb_processed x = 0" by simp_all
      moreover have "set (feedback w) \<subseteq> set (feedback w')"
        using set_take_subset[of "length (feedback w)" "feedback w'"] keep by simp
      ultimately show ?thesis by blast
    qed
    then show ?thesis by (simp add: list_all_iff)
  qed
  have rest: "map fb_content (added_rows w w') = map fb_content ?matched
             \<and> list_all (\<lambda>x. fb_source x = source) (added_rows w w')
             \<and> ((list_all (\<lambda>x. fb_processed x = 1) (added_rows w w')
                   \<and> (\<exists>s. source_summaries w' = source_summaries w @ [s]))
                 \<or> (list_all (\<lambda>x. fb_processed x = 0) (added_rows w w')
                   \<and> source_summaries w' = source_summaries w))"
    if ok: "\<forall>k. \<not> fails e k"
    using workflow_without_faults[OF ok params_ne run] contents by simp
  from keep old rest show ?thesis by blast
qed

text \<open>
  C10. The claim: every call of \<open>POST /api/summarize/{source}\<close> that finds a matching
  unprocessed record dispatches the pipeline, which inserts a copy of each fetched row
  and marks the copies. The handler does build the parameters and says in its answer
  that the workflow started, but it starts the workflow with
  \<open>env.FEEDBACK_WORKFLOW.run\<close>, and a Workflow binding has no member \<open>run\<close>. With two
  unprocessed forum rows in the table the call throws a TypeError, the handler answers
  with that error, the one statement sent is the SELECT, and the table is as it was: no
  row is copied and none is marked.
\<close>

theorem summarize_route_binding_has_no_run:
  "matched_feedback quiet_env pending_world ''forum'' (Some 1) = take 2 (feedback pending_world)
   \<and> fst (summarize_route quiet_env ''forum'' (Some 1) pending_world)
       = Inr (ErrorResponse ''env.FEEDBACK_WORKFLOW.run is not a function'')
   \<and> calls (snd (summarize_route quiet_env ''forum'' (Some 1) pending_world))
       = [SelectUnprocessed ''forum'' 100]
   \<and> map (\<lambda>x. (fb_id x, fb_processed x))
         (feedback (snd (summarize_route quiet_env ''forum'' (Some 1) pending_world)))
       = [(1, 0), (2, 0), (3, 1)]
   \<and> source_summaries (snd (summarize_route quiet_env ''forum'' (Some 1) pending_world)) = []"
  by code_simp

text \<open>
  The same rows and parameters given to the workflow itself: two copies with the ids 4
  and 5 are inserted and marked, and the rows 1 and 2 stay unprocessed.
\<close>

lemma pending_world_workflow:
  "mapE rewrap (take 2 (feedback pending_world))
     = Inr [\<lparr>content = Str ''Post: A'', metadata = Obj []\<rparr>,
            \<lparr>content = Str ''Post: B'', metadata = Null\<rparr>]
   \<and> map (\<lambda>x. (fb_id x, fb_content x, fb_processed x))
         (feedback (snd (FeedbackProcessingWorkflow_run quiet_env ''forum''
            [\<lparr>content = Str ''Post: A'', metadata = Obj []\<rparr>,
             \<lparr>content = Str ''Post: B'', metadata = Null\<rparr>] pending_world)))
       = [(1, Str ''Post: A'', 0), (2, Str ''Post: B'', 0), (3, Str ''Post: C'', 1),
          (4, Str ''Post: A'', 1), (5, Str ''Post: B'', 1)]"
  by code_simp

text \<open>
  C7. For the summaries fetched for the window, when they are not empty and neither
  statement is rejected: \<open>aggregateSummaries\<close> writes one AggregatedSummary whose
  source count is the number of distinct sources among them, whose total is the sum of
  their feedback counts and whose date range is the window; the workflow writes the same
  row, with the summary its summarize step returned.
\<close>

theorem aggregation_totals:
  assumes "\<not> fails e (length (calls w))" and "\<not> fails e (Suc (length (calls w)))"
    and "summaries = sort_key (\<lambda>s. - ss_created_at s)
           (filter (\<lambda>s. now e w - days * 24 * 60 * 60 \<le> ss_date_range_start s
                        \<and> ss_date_range_end s \<le> now e w) (source_summaries w))"
    and "summaries \<noteq> []"
  shows "(\<exists>row. aggregated_summaries (snd (aggregateSummaries e days w)) = aggregated_summaries w @ [row]
            \<and> aggregates summaries (now e w - days * 24 * 60 * 60) (now e w) row)
       \<and> (\<forall>text. generate_aggregated_summary e summaries = Inr text \<longrightarrow>
            (\<exists>row. aggregated_summaries (snd (AggregationWorkflow_run e days w))
                      = aggregated_summaries w @ [row]
                \<and> aggregates summaries (now e w - days * 24 * 60 * 60) (now e w) row
                \<and> ag_summary row = text))"
  using aggregateSummaries_persists[OF assms] AggregationWorkflow_persists[OF assms]
  by blast

lemma two_sources_fetched:
  "sort_key (\<lambda>s. - ss_created_at s)
     (filter (\<lambda>s. now quiet_env two_sources_world - 7 * 24 * 60 * 60 \<le> ss_date_range_start s
                  \<and> ss_date_range_end s \<le> now quiet_env two_sources_world)
        (source_summaries two_sources_world))
     = [summary_row 2 ''discord'' 150 300 6, summary_row 1 ''github'' 100 200 4]"
  by code_simp

lemma two_sources_aggregated:
  "aggregated_summaries (snd (AggregationWorkflow_run quiet_env 7 two_sources_world))
     = [\<lparr>ag_id = 1, ag_summary = Str ''Users want dark mode.'',
         ag_date_range_start = - 603800, ag_date_range_end = 1000,
         ag_source_count = 2, ag_total_feedback_count = 10, ag_created_at = 1001\<rparr>]
   \<and> map ag_source_count (aggregated_summaries (snd (aggregateSummaries quiet_env 7 two_sources_world))) = [2]
   \<and> map ag_total_feedback_count (aggregated_summaries (snd (aggregateSummaries quiet_env 7 two_sources_world))) = [10]"
  by code_simp

theorem aggregation_totals_witness:
  "aggregated_summaries (snd (AggregationWorkflow_run quiet_env 7 two_sources_world))
     = [\<lparr>ag_id = 1, ag_summary = Str ''Users want dark mode.'',
         ag_date_range_start = - 603800, ag_date_range_end = 1000,
         ag_source_count = 2, ag_total_feedback_count = 10, ag_created_at = 1001\<rparr>]
   \<and> map ag_source_count (aggregated_summaries (snd (aggregateSummaries quiet_env 7 two_sources_world))) = [2]
   \<and> map ag_total_feedback_count (aggregated_summaries (snd (aggregateSummaries quiet_env 7 two_sources_world))) = [10]"
proof -
  have ok0: "\<not> fails quiet_env (length (calls two_sources_world))"
    and ok1: "\<not> fails quiet_env (Suc (length (calls two_sources_world)))"
    using quiet_env_accepts by blast+
  have ne: "[summary_row 2 ''discord'' 150 300 6, summary_row 1 ''github'' 100 200 4] \<noteq> []"
    by simp
  from aggregation_totals[OF ok0 ok1 two_sources_fetched[symmetric] ne] two_sources_aggregated
  show ?thesis by simp
qed

end
